theory Spec2Isabelle
  imports Main "HOL-Library.Word" "HOL-Library.AList"
begin

section \<open>Errors, gateway events and effectful computations\<close>

text \<open>
  A Go \<open>error\<close> value that is not nil. \<open>APIError\<close> is the SDK's structured error
  (\<open>api.APIError\<close>) with its \<open>StatusCode\<close> and \<open>APIMessage\<close>; \<open>Errorf\<close> is an error
  built by \<open>fmt.Errorf\<close> from a format string and string arguments; \<open>ErrorfErr\<close> is
  \<open>fmt.Errorf\<close> applied to another error; \<open>OtherError\<close> is any other error value
  (transport failures and the like).
\<close>

datatype error =
    APIError (StatusCode: int) (APIMessage: string)
  | Errorf string "string list"
  | ErrorfErr string error
  | OtherError string

type_synonym 'a result = "error + 'a"

text \<open>Payload and response structures of the SDK, with the fields the provider code uses.
  Nested fields (\<open>server.Image.Identifier\<close>, \<open>server.PublicAddress.IP\<close>,
  \<open>server.IPV6.Address\<close>) are flattened.\<close>

record api_Server =
  Identifier :: string
  Name :: string
  Image_Identifier :: string
  CommercialType :: string
  EnableIPV6 :: bool
  PrivateIP :: string
  PublicAddress_IP :: string
  IPV6_Address :: string
  State :: string
  StateDetail :: string
  Tags :: "string list"

text \<open>An entry of the IP pool; \<open>Server\<close> is \<open>None\<close> for a nil pointer and
  \<open>Some i\<close> when \<open>ip.Server.Identifier\<close> is \<open>i\<close>.\<close>

record api_IP =
  ID :: string
  Address :: string
  Server :: "string option"

record api_VolumeDefinition =
  vd_Size :: "64 word"
  vd_Type :: string
  vd_Name :: string

record api_ServerDefinition =
  sd_Name :: string
  sd_Image :: "string option"
  sd_Organization :: string
  sd_EnableIPV6 :: bool
  sd_SecurityGroup :: string
  sd_DynamicIPRequired :: "bool option"
  sd_CommercialType :: string
  sd_Bootscript :: "string option"
  sd_Volumes :: "(string \<times> string) list option"
  sd_Tags :: "string list"

record api_ServerPatchDefinition =
  pd_Name :: "string option"
  pd_Tags :: "string list option"
  pd_EnableIPV6 :: "bool option"
  pd_DynamicIPRequired :: "bool option"
  pd_SecurityGroup :: "string option"

text \<open>What one reconciliation call does that is visible from outside: acquiring and
  releasing the package mutex \<open>mu\<close>, and each invocation of a gateway operation (or of one
  of the package helpers that talk to the gateway) with its arguments.\<close>

datatype event =
    MuLock
  | MuUnlock
  | EvGetServer string
  | EvPostServer api_ServerDefinition
  | EvPatchServer string api_ServerPatchDefinition
  | EvPostVolume api_VolumeDefinition
  | EvGetIPS
  | EvAttachIP string string
  | EvDetachIP string
  | EvNewIP
  | EvGetIP string
  | EvDeleteIP string
  | EvGetUserdatas string
  | EvGetUserdata string string
  | EvPatchUserdata string string string
  | EvDeleteUserdata string string
  | EvPoweronServer string
  | EvDeleteStoppedServer api_Server
  | EvDeleteRunningServer api_Server

text \<open>A computation runs in a provider world \<open>'w\<close> and returns its result, the new world
  and the events it caused, in order.\<close>

type_synonym ('w, 'r) act = "'w \<Rightarrow> 'r \<times> 'w \<times> event list"

definition ret :: "'r \<Rightarrow> ('w, 'r) act" where
  "ret r w = (r, w, [])"

definition bnd :: "('w, 'a) act \<Rightarrow> ('a \<Rightarrow> ('w, 'b) act) \<Rightarrow> ('w, 'b) act" where
  "bnd m k w = (case m w of (a, w1, e1) \<Rightarrow>
                 (case k a w1 of (b, w2, e2) \<Rightarrow> (b, w2, e1 @ e2)))"

text \<open>One invocation of a gateway operation \<open>f\<close>, recorded as event \<open>ev\<close>.\<close>

definition call :: "event \<Rightarrow> ('w \<Rightarrow> 'r \<times> 'w) \<Rightarrow> ('w, 'r) act" where
  "call ev f w = (case f w of (r, w1) \<Rightarrow> (r, w1, [ev]))"

definition events :: "'r \<times> 'w \<times> event list \<Rightarrow> event list" where
  "events x = snd (snd x)"

text \<open>\<open>mu.Lock()\<close> followed by \<open>defer mu.Unlock()\<close>: the body runs with the mutex held and
  the mutex is released on every return path.\<close>

definition locked :: "('w, 'r) act \<Rightarrow> ('w, 'r) act" where
  "locked body w = (case body w of (r, w1, e1) \<Rightarrow> (r, w1, MuLock # e1 @ [MuUnlock]))"

section \<open>Package-level declarations that the resource files use\<close>

text \<open>
  The resource files use \<open>retry\<close>, \<open>gb\<close>, \<open>poweronServer\<close>, \<open>deleteStoppedServer\<close> and
  \<open>deleteRunningServer\<close>, which are declared elsewhere in the package. The three helper
  functions take the gateway and a server (identifier), so they are operations on the
  provider world; \<open>gb\<close> is a \<open>uint64\<close> constant; the retry wrapper is described by an attempt
  budget and a classification of errors into retryable and terminal ones.
\<close>

record 'w pkg =
  maxAttempts :: nat
  retryable :: "error \<Rightarrow> bool"
  gb :: "64 word"
  poweronServer :: "string \<Rightarrow> 'w \<Rightarrow> unit result \<times> 'w"
  deleteStoppedServer :: "api_Server \<Rightarrow> 'w \<Rightarrow> unit result \<times> 'w"
  deleteRunningServer :: "api_Server \<Rightarrow> 'w \<Rightarrow> unit result \<times> 'w"

text \<open>
  Modelled from the spec: the function \<open>retry\<close> (the Retry Policy, "withRetry") is missing
  from the sources. The spec: it executes the operation; on error it decides retryability
  and re-invokes up to a fixed attempt budget; it returns the last error if the budget is
  exhausted; a terminal error is returned at once. \<open>retryN rt k f\<close> runs \<open>f\<close> with \<open>k\<close>
  re-invocations left. The backoff between attempts is a delay and is not modelled.
\<close>

fun retryN :: "(error \<Rightarrow> bool) \<Rightarrow> nat \<Rightarrow> ('w, 'a result) act \<Rightarrow> ('w, 'a result) act" where
  "retryN rt 0 f w = f w"
| "retryN rt (Suc k) f w =
     (case f w of
        (Inr a, w1, e1) \<Rightarrow> (Inr a, w1, e1)
      | (Inl err, w1, e1) \<Rightarrow>
          if rt err
          then (case retryN rt k f w1 of (r, w2, e2) \<Rightarrow> (r, w2, e1 @ e2))
          else (Inl err, w1, e1))"

definition retry :: "'w pkg \<Rightarrow> ('w, 'a result) act \<Rightarrow> ('w, 'a result) act" where
  "retry p f = retryN (retryable p) (maxAttempts p - 1) f"

text \<open>The world after \<open>k\<close> successive invocations of \<open>g\<close>.\<close>

fun after :: "('w \<Rightarrow> 'r \<times> 'w) \<Rightarrow> nat \<Rightarrow> 'w \<Rightarrow> 'w" where
  "after g 0 w = w"
| "after g (Suc k) w = after g k (snd (g w))"

section \<open>The server resource: schema\<close>

text \<open>The \<open>ValidateFunc\<close> of \<open>size_in_gb\<close>: it returns the warnings and the errors. The
  value is a Go \<open>int\<close> (64 bits), compared as a signed number.\<close>

definition size_in_gb_ValidateFunc :: "64 word \<Rightarrow> string \<Rightarrow> string list \<times> error list" where
  "size_in_gb_ValidateFunc v k =
     (if sint v > 150 then ([], [Errorf ''%q needs to be less than 150'' [k]]) else ([], []))"

text \<open>The schema framework accepts a value when the validator reports no error.\<close>

definition accepts :: "string list \<times> error list \<Rightarrow> bool" where
  "accepts r = (snd r = [])"

section \<open>Resource data of the schema framework\<close>

text \<open>
  \<open>schema.ResourceData\<close> for a resource whose attributes are the record \<open>'a\<close>: the stored
  identifier (\<open>d.Id()\<close>, \<open>d.SetId\<close>), the attributes of the prior state and of the planned
  state (what \<open>d.HasChange\<close> compares), the attributes as \<open>d.Get\<close> reads them (the planned
  ones, overwritten by \<open>d.Set\<close>), and the connection info.
\<close>

record 'a ResourceData =
  ident :: string
  prior :: 'a
  planned :: 'a
  attrs :: 'a
  ConnInfo :: "(string \<times> string) list"

definition Get :: "('a \<Rightarrow> 'v) \<Rightarrow> 'a ResourceData \<Rightarrow> 'v" where
  "Get f d = f (attrs d)"

text \<open>\<open>d.GetOk\<close> also reports whether the value is set to something other than the zero
  value of its type; for strings, lists and maps that is the empty one.\<close>

definition GetOk :: "('a \<Rightarrow> 'v list) \<Rightarrow> 'a ResourceData \<Rightarrow> 'v list \<times> bool" where
  "GetOk f d = (f (attrs d), f (attrs d) \<noteq> [])"

definition HasChange :: "('a \<Rightarrow> 'v) \<Rightarrow> 'a ResourceData \<Rightarrow> bool" where
  "HasChange f d = (f (prior d) \<noteq> f (planned d))"

text \<open>An element of the \<open>volume\<close> list and the attributes of the server schema. A Go map
  with string keys and string values is an association list; ranging over the map visits
  the entries in list order (Go leaves the order open).\<close>

record volume_entry =
  size_in_gb :: "64 word"
  volume_type :: string
  volume_id :: string

record server_attrs =
  name :: string
  image_attr :: string
  server_type :: string
  bootscript :: string
  tags :: "string list"
  security_group :: string
  volume :: "volume_entry list"
  enable_ipv6 :: bool
  dynamic_ip_required :: bool
  private_ip :: string
  public_ip :: string
  public_ipv6 :: string
  state :: string
  state_detail :: string
  user_data :: "(string \<times> string) list"

record ip_attrs =
  server_attr :: string
  ip_attr :: string

section \<open>The gateway\<close>

text \<open>The operations of \<open>api.API\<close> that the two resources call, as functions on the
  provider world. An operation that returns only an error returns \<open>unit result\<close>.
  \<open>GetUserdatas\<close> returns the key list \<open>uds.UserData\<close> and \<open>GetUserdata\<close> the value
  \<open>ud.String()\<close>; the constant \<open>false\<close> argument of the user-data calls is left out.\<close>

record 'w api_API =
  Organization :: string
  GetServer :: "string \<Rightarrow> 'w \<Rightarrow> api_Server result \<times> 'w"
  PostServer :: "api_ServerDefinition \<Rightarrow> 'w \<Rightarrow> string result \<times> 'w"
  PatchServer :: "string \<Rightarrow> api_ServerPatchDefinition \<Rightarrow> 'w \<Rightarrow> unit result \<times> 'w"
  PostVolume :: "api_VolumeDefinition \<Rightarrow> 'w \<Rightarrow> string result \<times> 'w"
  GetIPS :: "'w \<Rightarrow> api_IP list result \<times> 'w"
  AttachIP :: "string \<Rightarrow> string \<Rightarrow> 'w \<Rightarrow> unit result \<times> 'w"
  DetachIP :: "string \<Rightarrow> 'w \<Rightarrow> unit result \<times> 'w"
  NewIP :: "'w \<Rightarrow> api_IP result \<times> 'w"
  GetIP :: "string \<Rightarrow> 'w \<Rightarrow> api_IP result \<times> 'w"
  DeleteIP :: "string \<Rightarrow> 'w \<Rightarrow> unit result \<times> 'w"
  GetUserdatas :: "string \<Rightarrow> 'w \<Rightarrow> string list result \<times> 'w"
  GetUserdata :: "string \<Rightarrow> string \<Rightarrow> 'w \<Rightarrow> string result \<times> 'w"
  PatchUserdata :: "string \<Rightarrow> string \<Rightarrow> string \<Rightarrow> 'w \<Rightarrow> unit result \<times> 'w"
  DeleteUserdata :: "string \<Rightarrow> string \<Rightarrow> 'w \<Rightarrow> unit result \<times> 'w"

text \<open>The Go \<open>error\<close> of a result: nil on success.\<close>

definition err_of :: "'a result \<Rightarrow> error option" where
  "err_of r = (case r of Inl err \<Rightarrow> Some err | Inr _ \<Rightarrow> None)"

text \<open>Decimal digits of a number, for the \<open>%d\<close> verb of \<open>fmt.Sprintf\<close>.\<close>

fun dec :: "nat \<Rightarrow> string" where
  "dec n = (if n < 10 then [char_of (48 + n)] else dec (n div 10) @ [char_of (48 + n mod 10)])"

declare dec.simps [simp del]

section \<open>resource\_server.go\<close>

text \<open>\<open>attachIP\<close> (lines 138 to 150): list the pool without retry, attach the first entry
  with the address, fail when there is none.\<close>

fun attachIP_loop :: "'w api_API \<Rightarrow> string \<Rightarrow> string \<Rightarrow> api_IP list \<Rightarrow> ('w, error option) act" where
  "attachIP_loop scaleway serverID IPAddress [] =
     ret (Some (Errorf ''Failed to find IP with ip %q to attach'' [IPAddress]))"
| "attachIP_loop scaleway serverID IPAddress (ip # ips) =
     (if Address ip = IPAddress
      then bnd (call (EvAttachIP (ID ip) serverID) (AttachIP scaleway (ID ip) serverID))
             (\<lambda>r. ret (err_of r))
      else attachIP_loop scaleway serverID IPAddress ips)"

definition attachIP :: "'w api_API \<Rightarrow> string \<Rightarrow> string \<Rightarrow> ('w, error option) act" where
  "attachIP scaleway serverID IPAddress =
     bnd (call EvGetIPS (GetIPS scaleway))
       (\<lambda>r. case r of
          Inl err \<Rightarrow> ret (Some err)
        | Inr ips \<Rightarrow> attachIP_loop scaleway serverID IPAddress ips)"

text \<open>\<open>readUserDatas\<close> (lines 446 to 465): the key list, then one fetch per key; on a
  failed fetch the map built so far is returned with the error.\<close>

fun readUserDatas_loop ::
  "'w api_API \<Rightarrow> string \<Rightarrow> string list \<Rightarrow> (string \<times> string) list
    \<Rightarrow> ('w, (string \<times> string) list \<times> error option) act" where
  "readUserDatas_loop scaleway i [] m = ret (m, None)"
| "readUserDatas_loop scaleway i (k # ks) m =
     bnd (call (EvGetUserdata i k) (GetUserdata scaleway i k))
       (\<lambda>r. case r of
          Inl err \<Rightarrow> ret (m, Some err)
        | Inr ud \<Rightarrow> readUserDatas_loop scaleway i ks (AList.update k ud m))"

definition readUserDatas ::
  "'w api_API \<Rightarrow> string \<Rightarrow> ('w, (string \<times> string) list \<times> error option) act" where
  "readUserDatas scaleway i =
     bnd (call (EvGetUserdatas i) (GetUserdatas scaleway i))
       (\<lambda>r. case r of
          Inl err \<Rightarrow> ret ([], Some err)
        | Inr uds \<Rightarrow> readUserDatas_loop scaleway i uds [])"

text \<open>\<open>resourceScalewayServerRead\<close> (lines 248 to 300).\<close>

definition resourceScalewayServerRead ::
  "'w pkg \<Rightarrow> 'w api_API \<Rightarrow> server_attrs ResourceData
    \<Rightarrow> ('w, error option \<times> server_attrs ResourceData) act" where
  "resourceScalewayServerRead p scaleway d =
     bnd (retry p (call (EvGetServer (ident d)) (GetServer scaleway (ident d))))
       (\<lambda>r. case r of
          Inl err \<Rightarrow>
            (case err of
               APIError code msg \<Rightarrow>
                 if code = 404 then ret (None, d\<lparr>ident := ''''\<rparr>) else ret (Some err, d)
             | _ \<Rightarrow> ret (Some err, d))
        | Inr srv \<Rightarrow>
            (let d1 = d\<lparr>attrs := (attrs d)\<lparr>name := Name srv,
                         image_attr := Image_Identifier srv,
                         server_type := CommercialType srv,
                         enable_ipv6 := EnableIPV6 srv,
                         private_ip := PrivateIP srv,
                         public_ip := PublicAddress_IP srv\<rparr>\<rparr>;
                 d2 = (if EnableIPV6 srv
                       then d1\<lparr>attrs := (attrs d1)\<lparr>public_ipv6 := IPV6_Address srv\<rparr>\<rparr>
                       else d1);
                 d3 = d2\<lparr>attrs := (attrs d2)\<lparr>state := State srv,
                         state_detail := StateDetail srv,
                         tags := Tags srv\<rparr>,
                       ConnInfo := [(''type'', ''ssh''), (''host'', PublicAddress_IP srv)]\<rparr>
             in bnd (readUserDatas scaleway (ident d3))
                  (\<lambda>(ud, err). case err of
                     Some e \<Rightarrow> ret (Some e, d3)
                   | None \<Rightarrow>
                       if length ud > 0
                       then ret (None, d3\<lparr>attrs := (attrs d3)\<lparr>user_data := ud\<rparr>\<rparr>)
                       else ret (None, d3))))"

text \<open>\<open>resourceScalewayServerCreate\<close>. The volume loop (lines 178 to 201): \<open>i\<close> is the
  index of the element, \<open>vols\<close> is \<open>server.Volumes\<close>; the result is the updated element list
  and \<open>server.Volumes\<close>.\<close>

fun createVolumes ::
  "'w pkg \<Rightarrow> 'w api_API \<Rightarrow> string \<Rightarrow> nat \<Rightarrow> volume_entry list \<Rightarrow> (string \<times> string) list
    \<Rightarrow> ('w, (volume_entry list \<times> (string \<times> string) list) result) act" where
  "createVolumes p scaleway nm i [] vols = ret (Inr ([], vols))"
| "createVolumes p scaleway nm i (v # rest) vols =
     (let sizeInGB = size_in_gb v in
      if sizeInGB > 0
      then (let vd = \<lparr>vd_Size = sizeInGB * gb p, vd_Type = volume_type v,
                      vd_Name = nm @ ''-'' @ dec (unat sizeInGB)\<rparr>
            in bnd (retry p (call (EvPostVolume vd) (PostVolume scaleway vd)))
                 (\<lambda>r. case r of
                    Inl err \<Rightarrow> ret (Inl err)
                  | Inr volumeID \<Rightarrow>
                      bnd (createVolumes p scaleway nm (i + 1) rest
                             (AList.update (dec (i + 1)) volumeID vols))
                        (\<lambda>r2. case r2 of
                           Inl err \<Rightarrow> ret (Inl err)
                         | Inr (vs, vols2) \<Rightarrow>
                             ret (Inr (v\<lparr>volume_id := volumeID\<rparr> # vs, vols2)))))
      else bnd (createVolumes p scaleway nm (i + 1) rest vols)
             (\<lambda>r2. case r2 of
                Inl err \<Rightarrow> ret (Inl err)
              | Inr (vs, vols2) \<Rightarrow> ret (Inr (v # vs, vols2))))"

text \<open>The user-data loop of Create (lines 224 to 229), without retry.\<close>

fun createUserdata ::
  "'w api_API \<Rightarrow> string \<Rightarrow> (string \<times> string) list \<Rightarrow> ('w, error option) act" where
  "createUserdata scaleway i [] = ret None"
| "createUserdata scaleway i ((k, v) # rest) =
     bnd (call (EvPatchUserdata i k v) (PatchUserdata scaleway i k v))
       (\<lambda>r. case r of
          Inl err \<Rightarrow> ret (Some err)
        | Inr _ \<Rightarrow> createUserdata scaleway i rest)"

text \<open>Lines 158 to 230 of Create: the payload, the volumes, the server, the identifier
  and the user data. The result is the error of an early return or the identifier of the
  new server, with the resource data as it is at that point.\<close>

definition createPrefix ::
  "'w pkg \<Rightarrow> 'w api_API \<Rightarrow> server_attrs ResourceData
    \<Rightarrow> ('w, string result \<times> server_attrs ResourceData) act" where
  "createPrefix p scaleway d =
     (let image = Get image_attr d;
          srv = \<lparr>sd_Name = Get name d, sd_Image = Some image,
                 sd_Organization = Organization scaleway,
                 sd_EnableIPV6 = Get enable_ipv6 d,
                 sd_SecurityGroup = Get security_group d,
                 sd_DynamicIPRequired = Some (Get dynamic_ip_required d),
                 sd_CommercialType = Get server_type d,
                 sd_Bootscript = (case GetOk bootscript d of (b, ok) \<Rightarrow>
                                    if ok then Some b else None),
                 sd_Volumes = None, sd_Tags = []\<rparr>
      in bnd (case GetOk volume d of (vs, ok) \<Rightarrow>
                if ok
                then bnd (createVolumes p scaleway (sd_Name srv) 0 vs [])
                       (\<lambda>r. case r of
                          Inl err \<Rightarrow> ret (Inl err)
                        | Inr (volumes, vols) \<Rightarrow>
                            ret (Inr (srv\<lparr>sd_Volumes := Some vols\<rparr>,
                                      d\<lparr>attrs := (attrs d)\<lparr>volume := volumes\<rparr>\<rparr>)))
                else ret (Inr (srv, d)))
           (\<lambda>r. case r of
              Inl err \<Rightarrow> ret (Inl err, d)
            | Inr (srv1, d1) \<Rightarrow>
                (let srv2 = (case GetOk tags d1 of (raw, ok) \<Rightarrow>
                               if ok then srv1\<lparr>sd_Tags := sd_Tags srv1 @ raw\<rparr> else srv1)
                 in bnd (retry p (call (EvPostServer srv2) (PostServer scaleway srv2)))
                      (\<lambda>r. case r of
                         Inl err \<Rightarrow> ret (Inl err, d1)
                       | Inr i \<Rightarrow>
                           (let d2 = d1\<lparr>ident := i\<rparr>
                            in bnd (case GetOk user_data d2 of (ud, ok) \<Rightarrow>
                                      if ok then createUserdata scaleway i ud else ret None)
                                 (\<lambda>e. case e of
                                    Some err \<Rightarrow> ret (Inl err, d2)
                                  | None \<Rightarrow> ret (Inr i, d2)))))))"

text \<open>Lines 232 to 239 of Create. \<open>Inl err\<close> is the return from inside the block (the
  attach failed); \<open>Inr e\<close> is the variable \<open>err\<close> after the block. When the block is skipped
  \<open>err\<close> is still what the last \<open>PostServer\<close> attempt left in it, nil after a successful
  retry.\<close>

definition createStart ::
  "'w pkg \<Rightarrow> 'w api_API \<Rightarrow> server_attrs ResourceData \<Rightarrow> string
    \<Rightarrow> ('w, error option result) act" where
  "createStart p scaleway d i =
     (if Get state d \<noteq> ''stopped''
      then bnd (call (EvPoweronServer i) (poweronServer p i))
             (\<lambda>perr. case GetOk public_ip d of (v, ok) \<Rightarrow>
                if ok
                then bnd (attachIP scaleway (ident d) v)
                       (\<lambda>aerr. case aerr of
                          Some err \<Rightarrow> ret (Inl err)
                        | None \<Rightarrow> ret (Inr (err_of perr)))
                else ret (Inr (err_of perr)))
      else ret (Inr None))"

definition resourceScalewayServerCreate ::
  "'w pkg \<Rightarrow> 'w api_API \<Rightarrow> server_attrs ResourceData
    \<Rightarrow> ('w, error option \<times> server_attrs ResourceData) act" where
  "resourceScalewayServerCreate p scaleway d =
     locked (bnd (createPrefix p scaleway d)
       (\<lambda>(r, d1). case r of
          Inl err \<Rightarrow> ret (Some err, d1)
        | Inr i \<Rightarrow>
            bnd (createStart p scaleway d1 i)
              (\<lambda>x. case x of
                 Inl err \<Rightarrow> ret (Some err, d1)
               | Inr (Some err) \<Rightarrow> ret (Some err, d1)
               | Inr None \<Rightarrow> resourceScalewayServerRead p scaleway d1)))"

text \<open>\<open>resourceScalewayServerUpdate\<close>. Lines 308 to 342: one patch with the changed
  attributes.\<close>

definition updatePatch ::
  "'w pkg \<Rightarrow> 'w api_API \<Rightarrow> server_attrs ResourceData \<Rightarrow> ('w, error option) act" where
  "updatePatch p scaleway d =
     (let req = \<lparr>pd_Name = (if HasChange name d then Some (Get name d) else None),
                 pd_Tags = (if HasChange tags d
                            then (case GetOk tags d of (raw, ok) \<Rightarrow>
                                    if ok then Some raw else None)
                            else None),
                 pd_EnableIPV6 = (if HasChange enable_ipv6 d
                                  then Some (Get enable_ipv6 d) else None),
                 pd_DynamicIPRequired = (if HasChange dynamic_ip_required d
                                         then Some (Get dynamic_ip_required d) else None),
                 pd_SecurityGroup = (if HasChange security_group d
                                     then Some (Get security_group d) else None)\<rparr>
      in bnd (retry p (call (EvPatchServer (ident d) req) (PatchServer scaleway (ident d) req)))
           (\<lambda>r. case r of
              Inl err \<Rightarrow> ret (Some (ErrorfErr ''Failed patching scaleway server: %q'' err))
            | Inr _ \<Rightarrow> ret None))"

text \<open>Lines 344 to 380: the public IP. The two loops stop at the first matching entry.\<close>

fun updateAttach_loop ::
  "'w pkg \<Rightarrow> 'w api_API \<Rightarrow> string \<Rightarrow> string \<Rightarrow> api_IP list \<Rightarrow> ('w, error option) act" where
  "updateAttach_loop p scaleway i v [] = ret None"
| "updateAttach_loop p scaleway i v (ip # ips) =
     (if Address ip = v
      then bnd (retry p (call (EvAttachIP (ID ip) i) (AttachIP scaleway (ID ip) i)))
             (\<lambda>r. ret (err_of r))
      else updateAttach_loop p scaleway i v ips)"

fun updateDetach_loop ::
  "'w pkg \<Rightarrow> 'w api_API \<Rightarrow> string \<Rightarrow> api_IP list \<Rightarrow> ('w, error option) act" where
  "updateDetach_loop p scaleway i [] = ret None"
| "updateDetach_loop p scaleway i (ip # ips) =
     (if Server ip \<noteq> None \<and> Server ip = Some i
      then bnd (retry p (call (EvDetachIP (ID ip)) (DetachIP scaleway (ID ip))))
             (\<lambda>r. ret (err_of r))
      else updateDetach_loop p scaleway i ips)"

definition updatePublicIP ::
  "'w pkg \<Rightarrow> 'w api_API \<Rightarrow> server_attrs ResourceData \<Rightarrow> ('w, error option) act" where
  "updatePublicIP p scaleway d =
     (if HasChange public_ip d
      then bnd (retry p (call EvGetIPS (GetIPS scaleway)))
             (\<lambda>r. case r of
                Inl err \<Rightarrow> ret (Some err)
              | Inr ips \<Rightarrow>
                  (case GetOk public_ip d of (v, ok) \<Rightarrow>
                     if ok then updateAttach_loop p scaleway (ident d) v ips
                     else updateDetach_loop p scaleway (ident d) ips))
      else ret None)"

text \<open>Lines 382 to 411: the user data. \<open>am\<close> is the observed map, \<open>m\<close> the desired one.
  \<open>am[k]\<close> of a missing key is nil, which differs from every string.\<close>

fun deleteStale ::
  "'w api_API \<Rightarrow> string \<Rightarrow> (string \<times> string) list \<Rightarrow> (string \<times> string) list
    \<Rightarrow> ('w, error option) act" where
  "deleteStale scaleway i m [] = ret None"
| "deleteStale scaleway i m ((ak, av) # rest) =
     (if map_of m ak = None
      then bnd (call (EvDeleteUserdata i ak) (DeleteUserdata scaleway i ak))
             (\<lambda>r. case r of
                Inl err \<Rightarrow> ret (Some err)
              | Inr _ \<Rightarrow> deleteStale scaleway i m rest)
      else deleteStale scaleway i m rest)"

fun patchChanged ::
  "'w api_API \<Rightarrow> string \<Rightarrow> (string \<times> string) list \<Rightarrow> (string \<times> string) list
    \<Rightarrow> ('w, error option) act" where
  "patchChanged scaleway i am [] = ret None"
| "patchChanged scaleway i am ((k, v) # rest) =
     (if map_of am k \<noteq> Some v
      then bnd (call (EvPatchUserdata i k v) (PatchUserdata scaleway i k v))
             (\<lambda>r. case r of
                Inl err \<Rightarrow> ret (Some err)
              | Inr _ \<Rightarrow> patchChanged scaleway i am rest)
      else patchChanged scaleway i am rest)"

definition updateUserData ::
  "'w api_API \<Rightarrow> server_attrs ResourceData \<Rightarrow> ('w, error option) act" where
  "updateUserData scaleway d =
     (if HasChange user_data d
      then bnd (readUserDatas scaleway (ident d))
             (\<lambda>(am, err). case err of
                Some e \<Rightarrow> ret (Some e)
              | None \<Rightarrow>
                  (let m = (case GetOk user_data d of (om, ok) \<Rightarrow> if ok then om else [])
                   in bnd (deleteStale scaleway (ident d) m am)
                        (\<lambda>e. case e of
                           Some err \<Rightarrow> ret (Some err)
                         | None \<Rightarrow> patchChanged scaleway (ident d) am m)))
      else ret None)"

definition resourceScalewayServerUpdate ::
  "'w pkg \<Rightarrow> 'w api_API \<Rightarrow> server_attrs ResourceData
    \<Rightarrow> ('w, error option \<times> server_attrs ResourceData) act" where
  "resourceScalewayServerUpdate p scaleway d =
     locked (bnd (updatePatch p scaleway d)
       (\<lambda>e1. case e1 of
          Some err \<Rightarrow> ret (Some err, d)
        | None \<Rightarrow>
            bnd (updatePublicIP p scaleway d)
              (\<lambda>e2. case e2 of
                 Some err \<Rightarrow> ret (Some err, d)
               | None \<Rightarrow>
                   bnd (updateUserData scaleway d)
                     (\<lambda>e3. case e3 of
                        Some err \<Rightarrow> ret (Some err, d)
                      | None \<Rightarrow> resourceScalewayServerRead p scaleway d))))"

text \<open>\<open>resourceScalewayServerDelete\<close> (lines 416 to 444).\<close>

definition resourceScalewayServerDelete ::
  "'w pkg \<Rightarrow> 'w api_API \<Rightarrow> server_attrs ResourceData
    \<Rightarrow> ('w, error option \<times> server_attrs ResourceData) act" where
  "resourceScalewayServerDelete p scaleway d =
     locked (bnd (retry p (call (EvGetServer (ident d)) (GetServer scaleway (ident d))))
       (\<lambda>r. case r of
          Inl err \<Rightarrow> ret (Some err, d)
        | Inr s \<Rightarrow>
            if State s = ''stopped''
            then bnd (call (EvDeleteStoppedServer s) (deleteStoppedServer p s))
                   (\<lambda>r. ret (err_of r, d))
            else bnd (call (EvDeleteRunningServer s) (deleteRunningServer p s))
                   (\<lambda>r. case r of
                      Inr _ \<Rightarrow> ret (None, d\<lparr>ident := ''''\<rparr>)
                    | Inl err \<Rightarrow> ret (Some err, d))))"

section \<open>resource\_ip.go\<close>

definition resourceScalewayIPRead ::
  "'w pkg \<Rightarrow> 'w api_API \<Rightarrow> ip_attrs ResourceData
    \<Rightarrow> ('w, error option \<times> ip_attrs ResourceData) act" where
  "resourceScalewayIPRead p scaleway d =
     bnd (retry p (call (EvGetIP (ident d)) (GetIP scaleway (ident d))))
       (\<lambda>r. case r of
          Inl err \<Rightarrow>
            (case err of
               APIError code msg \<Rightarrow>
                 if code = 404 then ret (None, d\<lparr>ident := ''''\<rparr>) else ret (Some err, d)
             | _ \<Rightarrow> ret (Some err, d))
        | Inr resp \<Rightarrow>
            (let d1 = d\<lparr>attrs := (attrs d)\<lparr>ip_attr := Address resp\<rparr>\<rparr>
             in case Server resp of
                  None \<Rightarrow> ret (None, d1)
                | Some si \<Rightarrow> ret (None, d1\<lparr>attrs := (attrs d1)\<lparr>server_attr := si\<rparr>\<rparr>)))"

definition resourceScalewayIPUpdate ::
  "'w pkg \<Rightarrow> 'w api_API \<Rightarrow> ip_attrs ResourceData
    \<Rightarrow> ('w, error option \<times> ip_attrs ResourceData) act" where
  "resourceScalewayIPUpdate p scaleway d =
     locked
       (if HasChange server_attr d
        then (if Get server_attr d \<noteq> ''''
              then bnd (retry p (call (EvAttachIP (ident d) (Get server_attr d))
                                   (AttachIP scaleway (ident d) (Get server_attr d))))
                     (\<lambda>r. case r of
                        Inl err \<Rightarrow> ret (Some err, d)
                      | Inr _ \<Rightarrow> resourceScalewayIPRead p scaleway d)
              else bnd (retry p (call (EvDetachIP (ident d)) (DetachIP scaleway (ident d))))
                     (\<lambda>r. ret (err_of r, d)))
        else resourceScalewayIPRead p scaleway d)"

text \<open>Create takes the mutex around the retried \<open>NewIP\<close> only and releases it before it
  calls Update.\<close>

definition resourceScalewayIPCreate ::
  "'w pkg \<Rightarrow> 'w api_API \<Rightarrow> ip_attrs ResourceData
    \<Rightarrow> ('w, error option \<times> ip_attrs ResourceData) act" where
  "resourceScalewayIPCreate p scaleway d =
     bnd (locked (retry p (call EvNewIP (NewIP scaleway))))
       (\<lambda>r. case r of
          Inl err \<Rightarrow> ret (Some err, d)
        | Inr resp \<Rightarrow> resourceScalewayIPUpdate p scaleway (d\<lparr>ident := ID resp\<rparr>))"

definition resourceScalewayIPDelete ::
  "'w pkg \<Rightarrow> 'w api_API \<Rightarrow> ip_attrs ResourceData
    \<Rightarrow> ('w, error option \<times> ip_attrs ResourceData) act" where
  "resourceScalewayIPDelete p scaleway d =
     locked (bnd (retry p (call (EvDeleteIP (ident d)) (DeleteIP scaleway (ident d))))
       (\<lambda>r. case r of
          Inl err \<Rightarrow> ret (Some err, d)
        | Inr _ \<Rightarrow> ret (None, d\<lparr>ident := ''''\<rparr>)))"

section \<open>Properties of event sequences\<close>

text \<open>The provider actions of the public-IP step, the mutations of the user-data step,
  the mutex events, and the gateway calls that change provider state.\<close>

definition is_ip_action :: "event \<Rightarrow> bool" where
  "is_ip_action e = (case e of EvAttachIP _ _ \<Rightarrow> True | EvDetachIP _ \<Rightarrow> True | _ \<Rightarrow> False)"

definition is_attach :: "event \<Rightarrow> bool" where
  "is_attach e = (case e of EvAttachIP _ _ \<Rightarrow> True | _ \<Rightarrow> False)"

definition is_ud_mutation :: "event \<Rightarrow> bool" where
  "is_ud_mutation e =
     (case e of EvPatchUserdata _ _ _ \<Rightarrow> True | EvDeleteUserdata _ _ \<Rightarrow> True | _ \<Rightarrow> False)"

definition is_lock :: "event \<Rightarrow> bool" where
  "is_lock e = (e = MuLock \<or> e = MuUnlock)"

definition is_mutation :: "event \<Rightarrow> bool" where
  "is_mutation e =
     (case e of
        EvPostServer _ \<Rightarrow> True | EvPatchServer _ _ \<Rightarrow> True | EvPostVolume _ \<Rightarrow> True
      | EvAttachIP _ _ \<Rightarrow> True | EvDetachIP _ \<Rightarrow> True | EvNewIP \<Rightarrow> True
      | EvDeleteIP _ \<Rightarrow> True | EvPatchUserdata _ _ _ \<Rightarrow> True | EvDeleteUserdata _ _ \<Rightarrow> True
      | EvPoweronServer _ \<Rightarrow> True | EvDeleteStoppedServer _ \<Rightarrow> True
      | EvDeleteRunningServer _ \<Rightarrow> True | _ \<Rightarrow> False)"

text \<open>A computation none of whose events satisfies \<open>P\<close>, in any world.\<close>

definition quiet :: "(event \<Rightarrow> bool) \<Rightarrow> ('w, 'r) act \<Rightarrow> bool" where
  "quiet P m = (\<forall>w. filter P (events (m w)) = [])"

text \<open>
  The locking discipline in the words of the spec: the mutex is held for the duration of
  one mutating call and released between calls. \<open>held_for_one_call st es\<close> scans the
  events; \<open>st\<close> is \<open>None\<close> while the mutex is free, \<open>Some None\<close> while it is held and no
  mutating call was made under it, and \<open>Some (Some c)\<close> once the mutating call \<open>c\<close> was made
  under it. Invoking the same call again (a retry) counts as the same call; calls that only
  read are ignored.
\<close>

fun held_for_one_call :: "event option option \<Rightarrow> event list \<Rightarrow> bool" where
  "held_for_one_call st [] = True"
| "held_for_one_call st (e # es) =
     (if e = MuLock then held_for_one_call (Some None) es
      else if e = MuUnlock then held_for_one_call None es
      else if \<not> is_mutation e then held_for_one_call st es
      else (case st of
              None \<Rightarrow> held_for_one_call None es
            | Some None \<Rightarrow> held_for_one_call (Some (Some e)) es
            | Some (Some c) \<Rightarrow> e = c \<and> held_for_one_call st es))"

definition per_call_locking :: "event list \<Rightarrow> bool" where
  "per_call_locking es = held_for_one_call None es"

section \<open>An example provider\<close>

text \<open>A provider world for the concrete instances below: what \<open>GetServer\<close> answers, the
  IP pool and the user data of the server. The example gateway answers from the world and
  accepts every mutation without changing the world.\<close>

record example_world =
  ex_server :: "api_Server result"
  ex_pool :: "api_IP list"
  ex_userdata :: "(string \<times> string) list"

definition example_api :: "example_world api_API" where
  "example_api =
     \<lparr>Organization = ''org'',
      GetServer = (\<lambda>i w. (ex_server w, w)),
      PostServer = (\<lambda>sd w. (Inr ''srv1'', w)),
      PatchServer = (\<lambda>i req w. (Inr (), w)),
      PostVolume = (\<lambda>vd w. (Inr ''vol1'', w)),
      GetIPS = (\<lambda>w. (Inr (ex_pool w), w)),
      AttachIP = (\<lambda>i s w. (Inr (), w)),
      DetachIP = (\<lambda>i w. (Inr (), w)),
      NewIP = (\<lambda>w. (Inr \<lparr>ID = ''ip9'', Address = ''10.0.0.9'', Server = None\<rparr>, w)),
      GetIP = (\<lambda>i w. (case find (\<lambda>x. ID x = i) (ex_pool w) of
                          None \<Rightarrow> Inl (APIError 404 ''not found'')
                        | Some x \<Rightarrow> Inr x, w)),
      DeleteIP = (\<lambda>i w. (Inr (), w)),
      GetUserdatas = (\<lambda>i w. (Inr (map fst (ex_userdata w)), w)),
      GetUserdata = (\<lambda>i k w. (case map_of (ex_userdata w) k of
                                 None \<Rightarrow> Inl (APIError 404 ''not found'')
                               | Some v \<Rightarrow> Inr v, w)),
      PatchUserdata = (\<lambda>i k v w. (Inr (), w)),
      DeleteUserdata = (\<lambda>i k w. (Inr (), w))\<rparr>"

text \<open>Example package helpers: three attempts, status 500 and above is retryable, and the
  three server helpers succeed.\<close>

definition example_pkg :: "example_world pkg" where
  "example_pkg =
     \<lparr>maxAttempts = 3,
      retryable = (\<lambda>e. case e of APIError code msg \<Rightarrow> 500 \<le> code | _ \<Rightarrow> False),
      gb = 1000000000,
      poweronServer = (\<lambda>i w. (Inr (), w)),
      deleteStoppedServer = (\<lambda>s w. (Inr (), w)),
      deleteRunningServer = (\<lambda>s w. (Inr (), w))\<rparr>"

definition example_server :: api_Server where
  "example_server =
     \<lparr>Identifier = ''srv1'', Name = ''web'', Image_Identifier = ''img1'',
      CommercialType = ''C1'', EnableIPV6 = False, PrivateIP = ''10.0.0.1'',
      PublicAddress_IP = ''1.2.3.4'', IPV6_Address = '''', State = ''running'',
      StateDetail = ''booted'', Tags = []\<rparr>"

definition example_world :: example_world where
  "example_world =
     \<lparr>ex_server = Inr example_server,
      ex_pool = [\<lparr>ID = ''ip1'', Address = ''1.2.3.4'', Server = Some ''srv1''\<rparr>],
      ex_userdata = [(''role'', ''web'')]\<rparr>"

definition example_attrs :: server_attrs where
  "example_attrs =
     \<lparr>name = ''web'', image_attr = ''img1'', server_type = ''C1'', bootscript = '''',
      tags = [], security_group = '''', volume = [], enable_ipv6 = False,
      dynamic_ip_required = False, private_ip = '''', public_ip = '''', public_ipv6 = '''',
      state = ''running'', state_detail = '''', user_data = []\<rparr>"

definition example_data :: "server_attrs ResourceData" where
  "example_data =
     \<lparr>ident = ''srv1'', prior = example_attrs, planned = example_attrs,
      attrs = example_attrs, ConnInfo = []\<rparr>"

text \<open>The example resource data with a newly declared public IP.\<close>

definition example_ip_change :: "server_attrs ResourceData" where
  "example_ip_change =
     example_data\<lparr>planned := example_attrs\<lparr>public_ip := ''1.2.3.4''\<rparr>,
                    attrs := example_attrs\<lparr>public_ip := ''1.2.3.4''\<rparr>\<rparr>"

text \<open>The example resource data with newly declared user data, equal to the provider's.\<close>

definition example_ud_change :: "server_attrs ResourceData" where
  "example_ud_change =
     example_data\<lparr>planned := example_attrs\<lparr>user_data := [(''role'', ''web'')]\<rparr>,
                    attrs := example_attrs\<lparr>user_data := [(''role'', ''web'')]\<rparr>\<rparr>"

text \<open>New resource data (no identifier yet) that declare the public IP, once with the
  desired state \<open>stopped\<close>; and the example package with a failing \<open>poweronServer\<close>.\<close>

definition example_new :: "server_attrs ResourceData" where
  "example_new = example_ip_change\<lparr>ident := ''''\<rparr>"

definition example_new_stopped :: "server_attrs ResourceData" where
  "example_new_stopped =
     example_new\<lparr>attrs := (attrs example_new)\<lparr>state := ''stopped''\<rparr>\<rparr>"

definition failing_poweron_pkg :: "example_world pkg" where
  "failing_poweron_pkg =
     example_pkg\<lparr>poweronServer := (\<lambda>i w. (Inl (APIError 400 ''cannot boot''), w))\<rparr>"

definition example_ip_data :: "ip_attrs ResourceData" where
  "example_ip_data =
     \<lparr>ident = ''ip7'', prior = \<lparr>server_attr = '''', ip_attr = ''''\<rparr>,
      planned = \<lparr>server_attr = '''', ip_attr = ''''\<rparr>,
      attrs = \<lparr>server_attr = '''', ip_attr = ''''\<rparr>, ConnInfo = []\<rparr>"

text \<open>An operation on a counter that fails with status 503 on its first two invocations
  and succeeds from the third on.\<close>

definition flaky :: "nat \<Rightarrow> unit result \<times> nat" where
  "flaky n = (if n < 2 then Inl (APIError 503 ''unavailable'') else Inr (), Suc n)"

text \<open>The package helpers over the counter, with the same retry policy.\<close>

definition counter_pkg :: "nat pkg" where
  "counter_pkg =
     \<lparr>maxAttempts = 3,
      retryable = (\<lambda>e. case e of APIError code msg \<Rightarrow> 500 \<le> code | _ \<Rightarrow> False),
      gb = 1000000000,
      poweronServer = (\<lambda>i w. (Inr (), w)),
      deleteStoppedServer = (\<lambda>s w. (Inr (), w)),
      deleteRunningServer = (\<lambda>s w. (Inr (), w))\<rparr>"

section \<open>Basic facts about computations\<close>

lemma call_eq: "call ev g w = (fst (g w), snd (g w), [ev])"
  by (simp add: call_def split: prod.splits)

lemma bnd_step:
  "m w = (a, w1, e1) \<Longrightarrow> bnd m k w = (case k a w1 of (b, w2, e2) \<Rightarrow> (b, w2, e1 @ e2))"
  by (simp add: bnd_def)

lemma locked_step: "m w = (r, w1, e1) \<Longrightarrow> locked m w = (r, w1, MuLock # e1 @ [MuUnlock])"
  by (simp add: locked_def)

text \<open>The retry wrapper of the example package, and the example gateway's operations.\<close>

lemma retry_example_pkg:
  "retry example_pkg f =
     retryN (\<lambda>e. case e of APIError code msg \<Rightarrow> 500 \<le> code | _ \<Rightarrow> False) (Suc (Suc 0)) f"
  by (simp add: retry_def example_pkg_def numeral_2_eq_2)

lemma retry_failing_poweron_pkg:
  "retry failing_poweron_pkg f =
     retryN (\<lambda>e. case e of APIError code msg \<Rightarrow> 500 \<le> code | _ \<Rightarrow> False) (Suc (Suc 0)) f"
  by (simp add: retry_def failing_poweron_pkg_def example_pkg_def numeral_2_eq_2)

lemmas example_defs = retry_failing_poweron_pkg
  retry_example_pkg call_eq example_api_def example_world_def example_data_def
  example_attrs_def example_server_def example_ip_data_def example_ip_change_def
  example_ud_change_def example_new_def example_new_stopped_def

section \<open>The retry wrapper\<close>

lemma retryN_success:
  "N \<le> k \<Longrightarrow> (\<forall>j<N. \<exists>e. fst (g (after g j w)) = Inl e \<and> rt e) \<Longrightarrow>
   fst (g (after g N w)) = Inr a \<Longrightarrow>
   retryN rt k (call ev g) w = (Inr a, after g (Suc N) w, replicate (Suc N) ev)"
proof (induction N arbitrary: k w)
  case 0
  then show ?case by (cases k) (simp_all add: call_eq)
next
  case (Suc n)
  then obtain k' where k: "k = Suc k'" and nk: "n \<le> k'" by (cases k) auto
  from Suc.prems(2) obtain e where e: "fst (g w) = Inl e" "rt e" by force
  have step: "\<forall>j<n. \<exists>e. fst (g (after g j (snd (g w)))) = Inl e \<and> rt e"
    using Suc.prems(2) by (metis Suc_less_eq after.simps(2))
  have last: "fst (g (after g n (snd (g w)))) = Inr a"
    using Suc.prems(3) by simp
  from Suc.IH[OF nk step last] e show ?case
    by (simp add: k call_eq)
qed

lemma retryN_terminal:
  "fst (g w) = Inl e \<Longrightarrow> \<not> rt e \<Longrightarrow> retryN rt k (call ev g) w = (Inl e, snd (g w), [ev])"
  by (cases k) (simp_all add: call_eq)

text \<open>The events of composed computations, and of a retried gateway call: between one
  and the budget many copies of the call's event.\<close>

lemma events_ret: "events (ret r w) = []"
  by (simp add: events_def ret_def)

lemma events_call: "events (call ev f w) = [ev]"
  by (simp add: events_def call_eq)

lemma events_bnd:
  "events (bnd m k w) = events (m w) @ events (k (fst (m w)) (fst (snd (m w))))"
  by (simp add: events_def bnd_def split: prod.splits)

lemma events_locked: "events (locked m w) = MuLock # events (m w) @ [MuUnlock]"
  by (simp add: events_def locked_def split: prod.splits)

lemma events_triple: "events (r, w, es) = es"
  by (simp add: events_def)

lemma retryN_events:
  "\<exists>n. events (retryN rt k (call ev g) w) = replicate n ev \<and> 1 \<le> n \<and> n \<le> Suc k"
proof (induction k arbitrary: w)
  case 0
  have "events (retryN rt 0 (call ev g) w) = replicate 1 ev" by (simp add: events_call)
  then show ?case by (metis le_refl One_nat_def)
next
  case (Suc k)
  obtain r w1 where g: "g w = (r, w1)" by (cases "g w")
  show ?case
  proof (cases "\<exists>e. r = Inl e \<and> rt e")
    case True
    then obtain e where e: "r = Inl e" "rt e" by blast
    from Suc[of w1] obtain n where n: "events (retryN rt k (call ev g) w1) = replicate n ev" "1 \<le> n" "n \<le> Suc k"
      by blast
    have "events (retryN rt (Suc k) (call ev g) w) = replicate (Suc n) ev"
      using g e n(1) by (auto simp add: call_eq events_def split: prod.splits)
    then show ?thesis using n(2,3) by (metis Suc_le_mono le_SucI)
  next
    case False
    then have "events (retryN rt (Suc k) (call ev g) w) = replicate 1 ev"
      using g by (cases r) (auto simp add: call_eq events_def)
    then show ?thesis by (metis One_nat_def le_refl Suc_le_mono le0 le_SucI)
  qed
qed

lemma retry_events:
  "\<exists>n. events (retry p (call ev g) w) = replicate n ev \<and> 1 \<le> n \<and> n \<le> max 1 (maxAttempts p)"
proof -
  from retryN_events[of "retryable p" "maxAttempts p - 1" ev g w]
  obtain n where "events (retry p (call ev g) w) = replicate n ev" "1 \<le> n" "n \<le> Suc (maxAttempts p - 1)"
    by (auto simp add: retry_def)
  moreover have "Suc (maxAttempts p - 1) = max 1 (maxAttempts p)" by arith
  ultimately show ?thesis by metis
qed

section \<open>Computations that cause no event of a kind\<close>

lemma quietI: "(\<And>w. filter P (events (m w)) = []) \<Longrightarrow> quiet P m"
  by (simp add: quiet_def)

lemma quietD: "quiet P m \<Longrightarrow> filter P (events (m w)) = []"
  by (simp add: quiet_def)

lemma quiet_ret: "quiet P (ret r)"
  by (simp add: quiet_def events_ret)

lemma quiet_call: "\<not> P ev \<Longrightarrow> quiet P (call ev f)"
  by (simp add: quiet_def events_call)

lemma quiet_bnd: "quiet P m \<Longrightarrow> (\<And>a. quiet P (k a)) \<Longrightarrow> quiet P (bnd m k)"
  by (simp add: quiet_def events_bnd)

lemma quiet_retry: "\<not> P ev \<Longrightarrow> quiet P (retry p (call ev g))"
proof (rule quietI)
  fix w assume np: "\<not> P ev"
  from retry_events[of p ev g w] obtain n where "events (retry p (call ev g) w) = replicate n ev"
    by blast
  with np show "filter P (events (retry p (call ev g) w)) = []" by simp
qed

lemmas quiet_intros = quiet_ret quiet_call quiet_bnd quiet_retry

lemma quiet_readUserDatas_loop:
  "(\<And>k. \<not> P (EvGetUserdata i k)) \<Longrightarrow> quiet P (readUserDatas_loop s i ks m)"
  by (induction ks arbitrary: m) (auto intro!: quiet_intros split: sum.splits)

lemma quiet_readUserDatas:
  "\<not> P (EvGetUserdatas i) \<Longrightarrow> (\<And>k. \<not> P (EvGetUserdata i k)) \<Longrightarrow> quiet P (readUserDatas s i)"
  by (auto simp add: readUserDatas_def intro!: quiet_intros quiet_readUserDatas_loop split: sum.splits)

lemma quiet_Read:
  "\<not> P (EvGetServer (ident d)) \<Longrightarrow> \<not> P (EvGetUserdatas (ident d)) \<Longrightarrow>
   (\<And>k. \<not> P (EvGetUserdata (ident d) k)) \<Longrightarrow> quiet P (resourceScalewayServerRead p s d)"
  by (auto simp add: resourceScalewayServerRead_def Let_def
      intro!: quiet_intros quiet_readUserDatas split: sum.splits error.splits option.splits)

lemma quiet_IPRead:
  "\<not> P (EvGetIP (ident d)) \<Longrightarrow> quiet P (resourceScalewayIPRead p s d)"
  by (auto simp add: resourceScalewayIPRead_def Let_def
      intro!: quiet_intros split: sum.splits error.splits option.splits)

lemma quiet_updatePatch:
  "(\<And>req. \<not> P (EvPatchServer (ident d) req)) \<Longrightarrow> quiet P (updatePatch p s d)"
  by (auto simp add: updatePatch_def Let_def intro!: quiet_intros split: sum.splits)

lemma quiet_updateAttach_loop:
  "(\<And>x. \<not> P (EvAttachIP x i)) \<Longrightarrow> quiet P (updateAttach_loop p s i v ips)"
  by (induction ips) (auto intro!: quiet_intros)

lemma quiet_updateDetach_loop:
  "(\<And>x. \<not> P (EvDetachIP x)) \<Longrightarrow> quiet P (updateDetach_loop p s i ips)"
  by (induction ips) (auto intro!: quiet_intros)

lemma quiet_updatePublicIP:
  "\<not> P EvGetIPS \<Longrightarrow> (\<And>x. \<not> P (EvAttachIP x (ident d))) \<Longrightarrow> (\<And>x. \<not> P (EvDetachIP x)) \<Longrightarrow>
   quiet P (updatePublicIP p s d)"
  by (auto simp add: updatePublicIP_def GetOk_def
      intro!: quiet_intros quiet_updateAttach_loop quiet_updateDetach_loop split: sum.splits)

lemma quiet_deleteStale:
  "(\<And>k. \<not> P (EvDeleteUserdata i k)) \<Longrightarrow> quiet P (deleteStale s i m am)"
  by (induction am) (auto intro!: quiet_intros split: sum.splits)

lemma quiet_patchChanged:
  "(\<And>k v. \<not> P (EvPatchUserdata i k v)) \<Longrightarrow> quiet P (patchChanged s i am m)"
  by (induction m) (auto intro!: quiet_intros split: sum.splits)

lemma quiet_updateUserData:
  "\<not> P (EvGetUserdatas (ident d)) \<Longrightarrow> (\<And>k. \<not> P (EvGetUserdata (ident d) k)) \<Longrightarrow>
   (\<And>k. \<not> P (EvDeleteUserdata (ident d) k)) \<Longrightarrow> (\<And>k v. \<not> P (EvPatchUserdata (ident d) k v)) \<Longrightarrow>
   quiet P (updateUserData s d)"
  by (auto simp add: updateUserData_def Let_def GetOk_def
      intro!: quiet_intros quiet_readUserDatas quiet_deleteStale quiet_patchChanged
      split: option.splits)

lemma quiet_attachIP_loop:
  "(\<And>x. \<not> P (EvAttachIP x i)) \<Longrightarrow> quiet P (attachIP_loop s i v ips)"
  by (induction ips) (auto intro!: quiet_intros)

lemma quiet_attachIP:
  "\<not> P EvGetIPS \<Longrightarrow> (\<And>x. \<not> P (EvAttachIP x i)) \<Longrightarrow> quiet P (attachIP s i v)"
  by (auto simp add: attachIP_def intro!: quiet_intros quiet_attachIP_loop split: sum.splits)

lemma quiet_createUserdata:
  "(\<And>k v. \<not> P (EvPatchUserdata i k v)) \<Longrightarrow> quiet P (createUserdata s i ud)"
  by (induction ud) (auto intro!: quiet_intros split: sum.splits)

lemma quiet_createVolumes:
  "(\<And>vd. \<not> P (EvPostVolume vd)) \<Longrightarrow> quiet P (createVolumes p s nm i vs vols)"
  by (induction vs arbitrary: i vols) (auto simp add: Let_def intro!: quiet_intros split: sum.splits)

lemma quiet_createPrefix:
  "(\<And>vd. \<not> P (EvPostVolume vd)) \<Longrightarrow> (\<And>sd. \<not> P (EvPostServer sd)) \<Longrightarrow>
   (\<And>i k v. \<not> P (EvPatchUserdata i k v)) \<Longrightarrow> quiet P (createPrefix p s d)"
  by (auto simp add: createPrefix_def Let_def GetOk_def
      intro!: quiet_intros quiet_createVolumes quiet_createUserdata
      split: sum.splits option.splits)

lemma quiet_createStart:
  "\<not> P (EvPoweronServer i) \<Longrightarrow> \<not> P EvGetIPS \<Longrightarrow> (\<And>x. \<not> P (EvAttachIP x (ident d))) \<Longrightarrow>
   quiet P (createStart p s d i)"
  by (auto simp add: createStart_def GetOk_def
      intro!: quiet_intros quiet_attachIP split: sum.splits option.splits)

section \<open>The retry wrapper: attempt count\<close>

text \<open>
  C5. If an operation fails with a retryable error \<open>N\<close> times and then succeeds, with \<open>N\<close>
  below the attempt budget, the retry wrapper returns the success after exactly \<open>N + 1\<close>
  invocations, which is within the budget; an operation that returns a terminal error is
  invoked exactly once and that error is returned. Each invocation of the operation \<open>g\<close>
  is recorded as one event \<open>ev\<close>, so the event list counts the invocations.
\<close>

theorem retry_attempt_count:
  "(N < maxAttempts p \<and> (\<forall>j<N. \<exists>e. fst (g (after g j w)) = Inl e \<and> retryable p e) \<and>
      fst (g (after g N w)) = Inr a
    \<longrightarrow> retry p (call ev g) w = (Inr a, after g (Suc N) w, replicate (Suc N) ev) \<and>
        length (events (retry p (call ev g) w)) = N + 1 \<and> N + 1 \<le> maxAttempts p)
   \<and> (fst (g w) = Inl e \<and> \<not> retryable p e
    \<longrightarrow> retry p (call ev g) w = (Inl e, snd (g w), [ev]))"
proof -
  have A: "retry p (call ev g) w = (Inr a, after g (Suc N) w, replicate (Suc N) ev) \<and>
        length (events (retry p (call ev g) w)) = N + 1 \<and> N + 1 \<le> maxAttempts p"
    if h: "N < maxAttempts p \<and> (\<forall>j<N. \<exists>e. fst (g (after g j w)) = Inl e \<and> retryable p e) \<and>
      fst (g (after g N w)) = Inr a"
  proof -
    from h have le: "N \<le> maxAttempts p - 1" by arith
    from retryN_success[OF le, of g w "retryable p" a ev] h
    have r: "retry p (call ev g) w = (Inr a, after g (Suc N) w, replicate (Suc N) ev)"
      by (simp add: retry_def)
    then show ?thesis using h by (simp add: events_def)
  qed
  have B: "retry p (call ev g) w = (Inl e, snd (g w), [ev])"
    if "fst (g w) = Inl e \<and> \<not> retryable p e"
    using that by (simp add: retry_def retryN_terminal)
  from A B show ?thesis by blast
qed

section \<open>The volume size validator\<close>

text \<open>
  C6, as the code has it by design. Among the values from zero upwards the validator accepts
  a \<open>size_in_gb\<close> value if and only if it is at most 150: 150 is accepted, 151 is rejected,
  and zero is accepted. A volume whose size is zero is then skipped by the volume loop of
  Create: the loop goes on with the remaining volumes, the element is kept as it is, and no
  provider call is issued for it.
\<close>

theorem size_validator_zero_to_150:
  "(0 \<le> sint v \<longrightarrow> (accepts (size_in_gb_ValidateFunc v k) \<longleftrightarrow> sint v \<le> 150))
   \<and> accepts (size_in_gb_ValidateFunc 150 k) \<and> \<not> accepts (size_in_gb_ValidateFunc 151 k)
   \<and> accepts (size_in_gb_ValidateFunc 0 k)
   \<and> (size_in_gb vol = 0 \<longrightarrow>
        createVolumes p scaleway nm i (vol # rest) vols w =
          (case createVolumes p scaleway nm (i + 1) rest vols w of
             (Inl err, w1, es) \<Rightarrow> (Inl err, w1, es)
           | (Inr (vs, vols2), w1, es) \<Rightarrow> (Inr (vol # vs, vols2), w1, es))
        \<and> createVolumes p scaleway nm i [vol] vols w = (Inr ([vol], vols), w, []))"
proof -
  have A: "(0 \<le> sint v \<longrightarrow> (accepts (size_in_gb_ValidateFunc v k) \<longleftrightarrow> sint v \<le> 150))
   \<and> accepts (size_in_gb_ValidateFunc 150 k) \<and> \<not> accepts (size_in_gb_ValidateFunc 151 k)
   \<and> accepts (size_in_gb_ValidateFunc 0 k)"
    by (simp add: accepts_def size_in_gb_ValidateFunc_def)
  have B: "createVolumes p scaleway nm i (vol # rest) vols w =
          (case createVolumes p scaleway nm (i + 1) rest vols w of
             (Inl err, w1, es) \<Rightarrow> (Inl err, w1, es)
           | (Inr (vs, vols2), w1, es) \<Rightarrow> (Inr (vol # vs, vols2), w1, es))
        \<and> createVolumes p scaleway nm i [vol] vols w = (Inr ([vol], vols), w, [])"
    if z: "size_in_gb vol = 0"
    using z by (auto simp add: bnd_def ret_def split: prod.splits sum.splits)
  from A B show ?thesis by blast
qed

text \<open>C6 as stated fails: zero lies outside 1 to 150 and is accepted.\<close>

theorem size_validator_accepts_zero:
  "accepts (size_in_gb_ValidateFunc 0 ''size_in_gb'')
   \<and> \<not> (1 \<le> sint (0::64 word) \<and> sint (0::64 word) \<le> 150)"
  by (simp add: accepts_def size_in_gb_ValidateFunc_def)

section \<open>Read\<close>

text \<open>
  C1. When the fetch of Read (the gateway's \<open>GetServer\<close>, respectively \<open>GetIP\<close>, as the retry
  wrapper returns it) ends with an error of status code 404, Read clears the stored
  identifier and returns no error; for every other error of the fetch, Read returns that
  error and leaves the resource data, with its identifier, unchanged. This holds for the
  server resource and for the IP resource.
\<close>

theorem read_not_found_clears_identifier:
  "(retry p (call (EvGetServer (ident d)) (GetServer scaleway (ident d))) w = (Inl err, w1, e1)
     \<longrightarrow> resourceScalewayServerRead p scaleway d w =
           (if \<exists>msg. err = APIError 404 msg then (None, d\<lparr>ident := ''''\<rparr>) else (Some err, d),
            w1, e1))
   \<and> (retry p (call (EvGetIP (ident di)) (GetIP scaleway (ident di))) v = (Inl err2, v1, e2)
     \<longrightarrow> resourceScalewayIPRead p scaleway di v =
           (if \<exists>msg. err2 = APIError 404 msg then (None, di\<lparr>ident := ''''\<rparr>) else (Some err2, di),
            v1, e2))"
  by (cases err; cases err2)
     (simp_all add: resourceScalewayServerRead_def resourceScalewayIPRead_def bnd_step ret_def)

text \<open>At the gateway: a 404 that the retry policy classifies as terminal is what the retried
  fetch returns, after one invocation, so Read clears the identifier.\<close>

lemma read_terminal_not_found:
  assumes "fst (GetServer scaleway (ident d) w) = Inl (APIError 404 msg)"
    and "\<not> retryable p (APIError 404 msg)"
  shows "resourceScalewayServerRead p scaleway d w =
           ((None, d\<lparr>ident := ''''\<rparr>), snd (GetServer scaleway (ident d) w),
            [EvGetServer (ident d)])"
  using assms
  by (simp add: resourceScalewayServerRead_def retry_def retryN_terminal bnd_step ret_def)

text \<open>
  C10. When the fetch succeeds and the user data are read without error, Read writes the
  fetched map into \<open>user_data\<close> only if the map is not empty; when the provider reports no
  key, \<open>user_data\<close> keeps its previous value.
\<close>

theorem read_skips_empty_user_data:
  assumes "retry p (call (EvGetServer (ident d)) (GetServer scaleway (ident d))) w
             = (Inr srv, w1, e1)"
    and "readUserDatas scaleway (ident d) w1 = ((ud, None), w2, e2)"
  shows "fst (fst (resourceScalewayServerRead p scaleway d w)) = None \<and>
         user_data (attrs (snd (fst (resourceScalewayServerRead p scaleway d w)))) =
           (if ud \<noteq> [] then ud else user_data (attrs d))"
  using assms
  by (simp add: resourceScalewayServerRead_def bnd_step ret_def Let_def)

section \<open>Delete\<close>

text \<open>
  C3 at the failing input: when the server is observed as \<open>stopped\<close> and
  \<open>deleteStoppedServer\<close> succeeds, Delete returns no error and the resource data it leaves
  are the ones it was given: the stored identifier is not cleared.
\<close>

theorem delete_stopped_keeps_identifier:
  assumes "retry p (call (EvGetServer (ident d)) (GetServer scaleway (ident d))) w
             = (Inr s, w1, e1)"
    and "State s = ''stopped''"
    and "deleteStoppedServer p s w1 = (Inr (), w2)"
  shows "resourceScalewayServerDelete p scaleway d w =
           ((None, d), w2, MuLock # e1 @ [EvDeleteStoppedServer s, MuUnlock])"
  using assms
  by (simp add: resourceScalewayServerDelete_def locked_def bnd_step ret_def call_def err_of_def)

text \<open>The other paths of Delete: a failed fetch or a failed deletion leaves the identifier;
  a successful deletion of a server that is not \<open>stopped\<close> clears it.\<close>

lemma delete_other_paths:
  assumes "retry p (call (EvGetServer (ident d)) (GetServer scaleway (ident d))) w = (r, w1, e1)"
  shows "(r = Inl err \<longrightarrow> fst (resourceScalewayServerDelete p scaleway d w) = (Some err, d))
       \<and> (r = Inr s \<and> State s \<noteq> ''stopped'' \<and> fst (deleteRunningServer p s w1) = Inr ()
            \<longrightarrow> fst (resourceScalewayServerDelete p scaleway d w) = (None, d\<lparr>ident := ''''\<rparr>))
       \<and> (r = Inr s \<and> State s \<noteq> ''stopped'' \<and> fst (deleteRunningServer p s w1) = Inl err
            \<longrightarrow> fst (resourceScalewayServerDelete p scaleway d w) = (Some err, d))
       \<and> (r = Inr s \<and> State s = ''stopped'' \<and> fst (deleteStoppedServer p s w1) = Inl err
            \<longrightarrow> fst (resourceScalewayServerDelete p scaleway d w) = (Some err, d))"
  using assms
  by (auto simp add: resourceScalewayServerDelete_def locked_def bnd_def ret_def call_def
      err_of_def split: prod.splits)

section \<open>Update: the public IP\<close>

lemma events_updateAttach_loop:
  "events (updateAttach_loop p s i v ips w) =
     (case find (\<lambda>x. Address x = v) ips of
        None \<Rightarrow> []
      | Some x \<Rightarrow> events (retry p (call (EvAttachIP (ID x) i) (AttachIP s (ID x) i)) w))"
  by (induction ips) (simp_all add: events_ret events_bnd)

lemma events_updateDetach_loop:
  "events (updateDetach_loop p s i ips w) =
     (case find (\<lambda>x. Server x = Some i) ips of
        None \<Rightarrow> []
      | Some x \<Rightarrow> events (retry p (call (EvDetachIP (ID x)) (DetachIP s (ID x))) w))"
  by (induction ips) (simp_all add: events_ret events_bnd)

lemma ip_actions_retry:
  "is_ip_action ev \<Longrightarrow>
   \<exists>a n. filter is_ip_action (events (retry p (call ev g) w)) = replicate n a \<and> n \<le> max 1 (maxAttempts p)"
proof -
  assume ev: "is_ip_action ev"
  from retry_events[of p ev g w] obtain n where
    n: "events (retry p (call ev g) w) = replicate n ev" "n \<le> max 1 (maxAttempts p)" by blast
  with ev have "filter is_ip_action (events (retry p (call ev g) w)) = replicate n ev" by simp
  with n(2) show ?thesis by blast
qed

lemma nil_replicate: "\<exists>a n. [] = replicate n (a::event) \<and> n \<le> max 1 (k::nat)"
  by (rule exI[of _ MuLock], rule exI[of _ 0]) simp

lemma ip_actions_updatePublicIP:
  "\<exists>a n. filter is_ip_action (events (updatePublicIP p s d w)) = replicate n a
         \<and> n \<le> max 1 (maxAttempts p)"
proof (cases "HasChange public_ip d")
  case False
  then show ?thesis by (simp add: updatePublicIP_def events_ret nil_replicate)
next
  case True
  let ?m = "retry p (call EvGetIPS (GetIPS s))"
  have q: "filter is_ip_action (events (?m w)) = []"
    by (rule quietD[OF quiet_retry]) (simp add: is_ip_action_def)
  obtain r w1 e1 where m: "?m w = (r, w1, e1)" by (cases "?m w")
  show ?thesis
  proof (cases r)
    case (Inl err)
    with True m q show ?thesis
      using nil_replicate[of "maxAttempts p"]
      by (simp add: updatePublicIP_def events_bnd events_ret)
  next
    case (Inr ips)
    show ?thesis
    proof (cases "public_ip (attrs d) \<noteq> []")
      case ok: True
      have ev: "filter is_ip_action (events (updatePublicIP p s d w)) =
          filter is_ip_action (events (updateAttach_loop p s (ident d) (public_ip (attrs d)) ips w1))"
        using True m q Inr ok by (simp add: updatePublicIP_def events_bnd GetOk_def)
      show ?thesis
      proof (cases "find (\<lambda>x. Address x = public_ip (attrs d)) ips")
        case None
        then show ?thesis
          using nil_replicate[of "maxAttempts p"]
          by (simp add: ev events_updateAttach_loop events_updateDetach_loop)
      next
        case (Some x)
        then show ?thesis
          using ip_actions_retry[of "EvAttachIP (ID x) (ident d)" p "AttachIP s (ID x) (ident d)" w1]
          by (simp add: is_ip_action_def ev events_updateAttach_loop events_updateDetach_loop)
      qed
    next
      case nok: False
      have ev: "filter is_ip_action (events (updatePublicIP p s d w)) =
          filter is_ip_action (events (updateDetach_loop p s (ident d) ips w1))"
        using True m q Inr nok by (simp add: updatePublicIP_def events_bnd GetOk_def)
      show ?thesis
      proof (cases "find (\<lambda>x. Server x = Some (ident d)) ips")
        case None
        then show ?thesis
          using nil_replicate[of "maxAttempts p"]
          by (simp add: ev events_updateAttach_loop events_updateDetach_loop)
      next
        case (Some x)
        then show ?thesis
          using ip_actions_retry[of "EvDetachIP (ID x)" p "DetachIP s (ID x)" w1]
          by (simp add: is_ip_action_def ev events_updateAttach_loop events_updateDetach_loop)
      qed
    qed
  qed
qed

lemma filter_events_Update:
  assumes "\<not> P MuLock" "\<not> P MuUnlock" "\<And>req. \<not> P (EvPatchServer (ident d) req)"
    "\<not> P (EvGetServer (ident d))" "\<not> P (EvGetUserdatas (ident d))"
    "\<And>k. \<not> P (EvGetUserdata (ident d) k)"
  shows "filter P (events (resourceScalewayServerUpdate p s d w)) =
     (case updatePatch p s d w of
        (Some err, w1, e1) \<Rightarrow> []
      | (None, w1, e1) \<Rightarrow>
          (case updatePublicIP p s d w1 of
             (Some err, w2, e2) \<Rightarrow> filter P e2
           | (None, w2, e2) \<Rightarrow> filter P e2 @ filter P (events (updateUserData s d w2))))"
proof -
  have a: "\<And>w. filter P (events (updatePatch p s d w)) = []"
    by (rule quietD[OF quiet_updatePatch]) (rule assms)
  have b: "\<And>w. filter P (events (resourceScalewayServerRead p s d w)) = []"
    by (rule quietD[OF quiet_Read]) (rule assms)+
  obtain r1 w1 e1 where p1: "updatePatch p s d w = (r1, w1, e1)" by (cases "updatePatch p s d w")
  obtain r2 w2 e2 where p2: "updatePublicIP p s d w1 = (r2, w2, e2)" by (cases "updatePublicIP p s d w1")
  obtain r3 w3 e3 where p3: "updateUserData s d w2 = (r3, w3, e3)" by (cases "updateUserData s d w2")
  from a[of w] p1 have a1: "filter P e1 = []" by (simp add: events_def)
  show ?thesis
    using p1 p2 p3 a1 b assms(1,2)
    by (simp add: resourceScalewayServerUpdate_def events_locked events_bnd events_ret events_triple
        split: option.splits)
qed


lemma ip_actions_Update:
  "filter is_ip_action (events (resourceScalewayServerUpdate p s d w)) =
     (case updatePatch p s d w of
        (Some err, w1, e1) \<Rightarrow> []
      | (None, w1, e1) \<Rightarrow> filter is_ip_action (events (updatePublicIP p s d w1)))"
proof -
  have ud: "\<And>w2. filter is_ip_action (events (updateUserData s d w2)) = []"
    by (rule quietD[OF quiet_updateUserData]) (simp_all add: is_ip_action_def)
  obtain r1 w1 e1 where p1: "updatePatch p s d w = (r1, w1, e1)"
    by (cases "updatePatch p s d w")
  obtain r2 w2 e2 where p2: "updatePublicIP p s d w1 = (r2, w2, e2)"
    by (cases "updatePublicIP p s d w1")
  have "filter is_ip_action (events (resourceScalewayServerUpdate p s d w)) =
     (case updatePatch p s d w of
        (Some err, w1, e1) \<Rightarrow> []
      | (None, w1, e1) \<Rightarrow>
          (case updatePublicIP p s d w1 of
             (Some err, w2, e2) \<Rightarrow> filter is_ip_action e2
           | (None, w2, e2) \<Rightarrow>
               filter is_ip_action e2 @ filter is_ip_action (events (updateUserData s d w2))))"
    by (rule filter_events_Update) (simp_all add: is_ip_action_def)
  then show ?thesis
    using p1 p2 by (cases r1; cases r2) (simp_all add: ud events_triple)
qed

text \<open>
  C2, as the code has it. Among the events of one Update call, the attach and detach
  invocations are all invocations of one and the same provider action (one \<open>AttachIP\<close> or
  one \<open>DetachIP\<close>, never both), invoked again only by the retry wrapper and so at most as
  often as the attempt budget allows. When the public IP changed, an address is declared
  and the pool has an entry with that address, the action is the \<open>AttachIP\<close> of the first
  such entry to this server, and it is invoked at least once, whatever server the entry is
  attached to already.
\<close>

theorem update_ip_single_action:
  "(\<exists>a n. filter is_ip_action (events (resourceScalewayServerUpdate p s d w)) = replicate n a
          \<and> n \<le> max 1 (maxAttempts p))
   \<and> (updatePatch p s d w = (None, w1, e1) \<and> HasChange public_ip d \<and> public_ip (attrs d) \<noteq> []
      \<and> retry p (call EvGetIPS (GetIPS s)) w1 = (Inr ips, w2, e2)
      \<and> find (\<lambda>x. Address x = public_ip (attrs d)) ips = Some x
      \<longrightarrow> (\<exists>n\<ge>1. filter is_ip_action (events (resourceScalewayServerUpdate p s d w))
                    = replicate n (EvAttachIP (ID x) (ident d))))"
proof -
  have A: "\<exists>a n. filter is_ip_action (events (resourceScalewayServerUpdate p s d w)) = replicate n a
          \<and> n \<le> max 1 (maxAttempts p)"
  proof -
    obtain r1 v1 f1 where p1: "updatePatch p s d w = (r1, v1, f1)"
      by (cases "updatePatch p s d w")
    show ?thesis
    proof (cases r1)
      case None
      with p1 ip_actions_updatePublicIP[of p s d v1] show ?thesis
        by (simp add: ip_actions_Update)
    next
      case (Some err)
      with p1 nil_replicate[of "maxAttempts p"] show ?thesis
        by (simp add: ip_actions_Update)
    qed
  qed
  have B: "\<exists>n\<ge>1. filter is_ip_action (events (resourceScalewayServerUpdate p s d w))
                    = replicate n (EvAttachIP (ID x) (ident d))"
    if h: "updatePatch p s d w = (None, w1, e1) \<and> HasChange public_ip d \<and> public_ip (attrs d) \<noteq> []
      \<and> retry p (call EvGetIPS (GetIPS s)) w1 = (Inr ips, w2, e2)
      \<and> find (\<lambda>x. Address x = public_ip (attrs d)) ips = Some x"
  proof -
    from retry_events[of p EvGetIPS "GetIPS s" w1] h
    obtain k where k: "e2 = replicate k EvGetIPS" by (auto simp add: events_def)
    from retry_events[of p "EvAttachIP (ID x) (ident d)" "AttachIP s (ID x) (ident d)" w2]
    obtain n where n: "events (retry p (call (EvAttachIP (ID x) (ident d))
        (AttachIP s (ID x) (ident d))) w2) = replicate n (EvAttachIP (ID x) (ident d))" "1 \<le> n"
      by blast
    have "filter is_ip_action (events (updatePublicIP p s d w1)) =
           replicate n (EvAttachIP (ID x) (ident d))"
      using h k n(1)
      by (simp add: updatePublicIP_def events_bnd GetOk_def events_updateAttach_loop
          is_ip_action_def events_triple)
    with h n(2) show ?thesis by (auto simp add: ip_actions_Update)
  qed
  from A B show ?thesis by blast
qed

section \<open>Update: the user data\<close>

lemma deleteStale_noop:
  "(\<forall>k \<in> fst ` set am. map_of m k \<noteq> None) \<Longrightarrow> deleteStale s i m am w = (None, w, [])"
  by (induction am) (auto simp add: ret_def)

lemma patchChanged_noop:
  "(\<forall>(k, v) \<in> set m. map_of am k = Some v) \<Longrightarrow> patchChanged s i am m w = (None, w, [])"
  by (induction m) (auto simp add: ret_def)

lemma deleteStale_events:
  "(\<forall>k u. fst (DeleteUserdata s i k u) = Inr ()) \<Longrightarrow>
   events (deleteStale s i m am w) =
     map (EvDeleteUserdata i) (filter (\<lambda>k. map_of m k = None) (map fst am))"
  by (induction am arbitrary: w) (auto simp add: events_ret events_bnd events_call events_triple call_eq)

lemma patchChanged_events:
  "(\<forall>k v u. fst (PatchUserdata s i k v u) = Inr ()) \<Longrightarrow>
   events (patchChanged s i am m w) =
     map (\<lambda>(k, v). EvPatchUserdata i k v) (filter (\<lambda>(k, v). map_of am k \<noteq> Some v) m)"
  by (induction m arbitrary: w) (auto simp add: events_ret events_bnd events_call events_triple call_eq)

lemma updateUserData_converged:
  assumes "readUserDatas s (ident d) w = ((am, None), w1, e1)"
    and "distinct (map fst (user_data (attrs d)))"
    and "map_of am = map_of (user_data (attrs d))"
  shows "updateUserData s d w =
           (None, if HasChange user_data d then w1 else w, if HasChange user_data d then e1 else [])"
proof -
  let ?m = "user_data (attrs d)"
  have m: "(case GetOk user_data d of (om, ok) \<Rightarrow> if ok then om else []) = ?m"
    by (simp add: GetOk_def)
  have a: "\<forall>k \<in> fst ` set am. map_of ?m k \<noteq> None"
    using assms(3) by (metis map_of_eq_None_iff)
  have b: "\<forall>(k, v) \<in> set ?m. map_of am k = Some v"
    using assms(2,3) by auto
  show ?thesis
    using assms(1) deleteStale_noop[OF a, of s "ident d" w1] patchChanged_noop[OF b, of s "ident d" w1]
    by (simp add: updateUserData_def bnd_step ret_def m Let_def)
qed

lemma quiet_ud_readUserDatas: "quiet is_ud_mutation (readUserDatas s i)"
  by (rule quiet_readUserDatas) (simp_all add: is_ud_mutation_def)

lemma ud_mutations_Update:
  "filter is_ud_mutation (events (resourceScalewayServerUpdate p s d w)) =
     (case updatePatch p s d w of
        (Some err, w1, e1) \<Rightarrow> []
      | (None, w1, e1) \<Rightarrow>
          (case updatePublicIP p s d w1 of
             (Some err, w2, e2) \<Rightarrow> []
           | (None, w2, e2) \<Rightarrow> filter is_ud_mutation (events (updateUserData s d w2))))"
proof -
  have ip: "\<And>w1. filter is_ud_mutation (events (updatePublicIP p s d w1)) = []"
    by (rule quietD[OF quiet_updatePublicIP]) (simp_all add: is_ud_mutation_def)
  obtain r1 w1 e1 where p1: "updatePatch p s d w = (r1, w1, e1)"
    by (cases "updatePatch p s d w")
  obtain r2 w2 e2 where p2: "updatePublicIP p s d w1 = (r2, w2, e2)"
    by (cases "updatePublicIP p s d w1")
  from ip[of w1] p2 have e2: "filter is_ud_mutation e2 = []" by (simp add: events_triple)
  have "filter is_ud_mutation (events (resourceScalewayServerUpdate p s d w)) =
     (case updatePatch p s d w of
        (Some err, w1, e1) \<Rightarrow> []
      | (None, w1, e1) \<Rightarrow>
          (case updatePublicIP p s d w1 of
             (Some err, w2, e2) \<Rightarrow> filter is_ud_mutation e2
           | (None, w2, e2) \<Rightarrow>
               filter is_ud_mutation e2 @ filter is_ud_mutation (events (updateUserData s d w2))))"
    by (rule filter_events_Update) (simp_all add: is_ud_mutation_def)
  then show ?thesis
    using p1 p2 e2 by (cases r1; cases r2) simp_all
qed

text \<open>
  C4. If the user data observed by Update (read without error) equal the desired map, whose
  keys are unique, the user-data step issues no \<open>DeleteUserdata\<close> and no \<open>PatchUserdata\<close>:
  its only events are those of reading the user data, and a whole Update call that reaches
  the step through the patch and the public-IP step issues none either. In general, when
  the provider accepts the calls, the step deletes exactly the observed keys that are not
  desired and patches exactly the desired entries whose observed value is missing or
  different; keys equal in both are untouched.
\<close>

theorem user_data_update_idempotent:
  assumes "readUserDatas s (ident d) w = ((am, None), w1, e1)"
    and "distinct (map fst (user_data (attrs d)))"
    and "map_of am = map_of (user_data (attrs d))"
  shows "updateUserData s d w =
           (None, if HasChange user_data d then w1 else w, if HasChange user_data d then e1 else [])
       \<and> filter is_ud_mutation (events (updateUserData s d w)) = []
       \<and> (updatePatch p s d w0 = (r1, wa, ea) \<and> updatePublicIP p s d wa = (r2, w, eb)
            \<longrightarrow> filter is_ud_mutation (events (resourceScalewayServerUpdate p s d w0)) = [])
       \<and> ((\<forall>k u. fst (DeleteUserdata s i k u) = Inr ())
            \<longrightarrow> events (deleteStale s i m' am' u0) =
                  map (EvDeleteUserdata i) (filter (\<lambda>k. map_of m' k = None) (map fst am')))
       \<and> ((\<forall>k v u. fst (PatchUserdata s i k v u) = Inr ())
            \<longrightarrow> events (patchChanged s i am' m' u0) =
                  map (\<lambda>(k, v). EvPatchUserdata i k v)
                    (filter (\<lambda>(k, v). map_of am' k \<noteq> Some v) m'))"
proof -
  note conv = updateUserData_converged[OF assms]
  from assms(1) quietD[OF quiet_ud_readUserDatas, of s "ident d" w]
  have e1: "filter is_ud_mutation e1 = []" by (simp add: events_triple)
  have q: "filter is_ud_mutation (events (updateUserData s d w)) = []"
    by (simp add: conv events_triple e1)
  have U: "filter is_ud_mutation (events (resourceScalewayServerUpdate p s d w0)) = []"
    if "updatePatch p s d w0 = (r1, wa, ea) \<and> updatePublicIP p s d wa = (r2, w, eb)"
    using that q by (cases r1; cases r2) (simp_all add: ud_mutations_Update)
  from conv q U deleteStale_events[of s i m' am' u0] patchChanged_events[of s i am' m' u0]
  show ?thesis by blast
qed

section \<open>Create: power-on and attach\<close>

lemma attachIP_starts_with_GetIPS: "\<exists>es. events (attachIP s i v w) = EvGetIPS # es"
  by (simp add: attachIP_def events_bnd events_call)

lemma createPrefix_ident:
  "createPrefix p s d w = ((Inr i, d1), w1, e1) \<Longrightarrow> ident d1 = i"
  by (auto simp add: createPrefix_def Let_def bnd_def ret_def GetOk_def
      split: prod.splits sum.splits option.splits if_splits)

lemma createStart_running:
  assumes "Get state d \<noteq> ''stopped''" "poweronServer p i w = (pr, w2)"
  shows "createStart p s d i w =
     (if public_ip (attrs d) \<noteq> []
      then (case attachIP s (ident d) (public_ip (attrs d)) w2 of
              (Some err, w3, e3) \<Rightarrow> (Inl err, w3, EvPoweronServer i # e3)
            | (None, w3, e3) \<Rightarrow> (Inr (err_of pr), w3, EvPoweronServer i # e3))
      else (Inr (err_of pr), w2, [EvPoweronServer i]))"
  using assms
  by (auto simp add: createStart_def bnd_def ret_def call_def GetOk_def split: prod.splits option.splits)

lemma Create_after_prefix:
  assumes "createPrefix p s d w = ((Inr i, d1), w1, e1)"
    and "createStart p s d1 i w1 = (x, w2, e2)"
  shows "resourceScalewayServerCreate p s d w =
     (case x of
        Inl err \<Rightarrow> ((Some err, d1), w2, MuLock # e1 @ e2 @ [MuUnlock])
      | Inr (Some err) \<Rightarrow> ((Some err, d1), w2, MuLock # e1 @ e2 @ [MuUnlock])
      | Inr None \<Rightarrow>
          (case resourceScalewayServerRead p s d1 w2 of
             (r, w3, e3) \<Rightarrow> (r, w3, MuLock # e1 @ e2 @ e3 @ [MuUnlock])))"
  using assms
  by (auto simp add: resourceScalewayServerCreate_def locked_def bnd_def ret_def
      split: prod.splits sum.splits option.splits)

text \<open>
  C7. In Create, once the server exists and its user data are written, with a desired state
  other than \<open>stopped\<close> and a failing power-on: if no public IP is declared, Create returns
  the power-on error; if one is declared, the attach is attempted all the same (its events,
  beginning with the pool listing, follow the power-on), and Create returns the attach error
  alone when the attach fails, the power-on error when the attach succeeds.
\<close>

theorem create_poweron_error_shadowing:
  assumes "createPrefix p s d w = ((Inr i, d1), w1, e1)"
    and "Get state d1 \<noteq> ''stopped''"
    and "poweronServer p i w1 = (Inl perr, w2)"
  shows "(public_ip (attrs d1) = [] \<longrightarrow>
            resourceScalewayServerCreate p s d w =
              ((Some perr, d1), w2, MuLock # e1 @ [EvPoweronServer i, MuUnlock]))
       \<and> (public_ip (attrs d1) \<noteq> [] \<longrightarrow>
            (\<forall>aerr w3 e3. attachIP s (ident d1) (public_ip (attrs d1)) w2 = (aerr, w3, e3) \<longrightarrow>
               EvGetIPS \<in> set e3 \<and>
               resourceScalewayServerCreate p s d w =
                 ((Some (case aerr of Some err \<Rightarrow> err | None \<Rightarrow> perr), d1), w3,
                  MuLock # e1 @ EvPoweronServer i # e3 @ [MuUnlock])))"
proof (intro conjI impI allI)
  assume np: "public_ip (attrs d1) = []"
  from createStart_running[OF assms(2,3), of s] np
  have "createStart p s d1 i w1 = (Inr (Some perr), w2, [EvPoweronServer i])"
    by (simp add: err_of_def)
  from Create_after_prefix[OF assms(1) this]
  show "resourceScalewayServerCreate p s d w =
              ((Some perr, d1), w2, MuLock # e1 @ [EvPoweronServer i, MuUnlock])"
    by simp
next
  fix aerr w3 e3
  assume ip: "public_ip (attrs d1) \<noteq> []"
    and at: "attachIP s (ident d1) (public_ip (attrs d1)) w2 = (aerr, w3, e3)"
  from attachIP_starts_with_GetIPS[of s "ident d1" "public_ip (attrs d1)" w2] at
  show "EvGetIPS \<in> set e3" by (auto simp add: events_def)
  from createStart_running[OF assms(2,3), of s] ip at
  have "createStart p s d1 i w1 =
      (case aerr of Some err \<Rightarrow> Inl err | None \<Rightarrow> Inr (Some perr), w3, EvPoweronServer i # e3)"
    by (simp add: err_of_def split: option.splits)
  from Create_after_prefix[OF assms(1) this]
  show "resourceScalewayServerCreate p s d w =
                 ((Some (case aerr of Some err \<Rightarrow> err | None \<Rightarrow> perr), d1), w3,
                  MuLock # e1 @ EvPoweronServer i # e3 @ [MuUnlock])"
    by (simp split: option.splits)
qed

section \<open>A declared public IP that is not in the pool\<close>

lemma attachIP_loop_no_match:
  "\<forall>x\<in>set ips. Address x \<noteq> v \<Longrightarrow>
   attachIP_loop s i v ips w = (Some (Errorf ''Failed to find IP with ip %q to attach'' [v]), w, [])"
  by (induction ips) (simp_all add: ret_def)

lemma updateAttach_loop_no_match:
  "\<forall>x\<in>set ips. Address x \<noteq> v \<Longrightarrow> updateAttach_loop p s i v ips w = (None, w, [])"
  by (induction ips) (simp_all add: ret_def)

lemma attach_actions_Update:
  "filter is_attach (events (resourceScalewayServerUpdate p s d w)) =
     (case updatePatch p s d w of
        (Some err, w1, e1) \<Rightarrow> []
      | (None, w1, e1) \<Rightarrow> filter is_attach (events (updatePublicIP p s d w1)))"
proof -
  have ud: "\<And>w2. filter is_attach (events (updateUserData s d w2)) = []"
    by (rule quietD[OF quiet_updateUserData]) (simp_all add: is_attach_def)
  obtain r1 w1 e1 where p1: "updatePatch p s d w = (r1, w1, e1)"
    by (cases "updatePatch p s d w")
  obtain r2 w2 e2 where p2: "updatePublicIP p s d w1 = (r2, w2, e2)"
    by (cases "updatePublicIP p s d w1")
  have "filter is_attach (events (resourceScalewayServerUpdate p s d w)) =
     (case updatePatch p s d w of
        (Some err, w1, e1) \<Rightarrow> []
      | (None, w1, e1) \<Rightarrow>
          (case updatePublicIP p s d w1 of
             (Some err, w2, e2) \<Rightarrow> filter is_attach e2
           | (None, w2, e2) \<Rightarrow>
               filter is_attach e2 @ filter is_attach (events (updateUserData s d w2))))"
    by (rule filter_events_Update) (simp_all add: is_attach_def)
  then show ?thesis
    using p1 p2 by (cases r1; cases r2) (simp_all add: ud events_triple)
qed

lemma Update_all_steps:
  assumes "updatePatch p s d w = (None, w1, e1)" "updatePublicIP p s d w1 = (None, w2, e2)"
    "updateUserData s d w2 = (None, w3, e3)" "resourceScalewayServerRead p s d w3 = (r, w4, e4)"
  shows "resourceScalewayServerUpdate p s d w = (r, w4, MuLock # e1 @ e2 @ e3 @ e4 @ [MuUnlock])"
  using assms by (simp add: resourceScalewayServerUpdate_def locked_def bnd_def)

text \<open>
  C9, as the code has it. A public IP is declared and no pool entry has that address.
  Create, once the server exists and its user data are written, with a desired state other
  than \<open>stopped\<close> and a pool listing that succeeds, returns the error "Failed to find IP"
  whatever the power-on returned, and the identifier is the one of the new server. Update,
  once the patch succeeded and the (retried) pool listing succeeded, leaves its public-IP step
  without error and without any \<open>AttachIP\<close>, the whole Update call issues no \<open>AttachIP\<close>,
  and Update returns success when its user-data step and the final Read succeed.
\<close>

theorem missing_pool_entry_create_fails_update_skips:
  "(createPrefix p s d w = ((Inr i, d1), w1, e1) \<and> Get state d1 \<noteq> ''stopped''
      \<and> public_ip (attrs d1) \<noteq> [] \<and> poweronServer p i w1 = (pr, w2)
      \<and> GetIPS s w2 = (Inr ips, w3) \<and> (\<forall>x\<in>set ips. Address x \<noteq> public_ip (attrs d1))
    \<longrightarrow> resourceScalewayServerCreate p s d w =
          ((Some (Errorf ''Failed to find IP with ip %q to attach'' [public_ip (attrs d1)]), d1),
           w3, MuLock # e1 @ [EvPoweronServer i, EvGetIPS, MuUnlock])
        \<and> ident d1 = i)
   \<and> (updatePatch p s du v0 = (None, v1, f1) \<and> HasChange public_ip du
      \<and> public_ip (attrs du) \<noteq> [] \<and> retry p (call EvGetIPS (GetIPS s)) v1 = (Inr ips2, v2, f2)
      \<and> (\<forall>x\<in>set ips2. Address x \<noteq> public_ip (attrs du))
    \<longrightarrow> updatePublicIP p s du v1 = (None, v2, f2)
        \<and> filter is_attach (events (resourceScalewayServerUpdate p s du v0)) = []
        \<and> (\<forall>v3 f3 du2 v4 f4.
              updateUserData s du v2 = (None, v3, f3) \<and>
              resourceScalewayServerRead p s du v3 = ((None, du2), v4, f4)
              \<longrightarrow> resourceScalewayServerUpdate p s du v0 =
                    ((None, du2), v4, MuLock # f1 @ f2 @ f3 @ f4 @ [MuUnlock])))"
proof -
  have A: "resourceScalewayServerCreate p s d w =
          ((Some (Errorf ''Failed to find IP with ip %q to attach'' [public_ip (attrs d1)]), d1),
           w3, MuLock # e1 @ [EvPoweronServer i, EvGetIPS, MuUnlock])
        \<and> ident d1 = i"
    if h: "createPrefix p s d w = ((Inr i, d1), w1, e1) \<and> Get state d1 \<noteq> ''stopped''
      \<and> public_ip (attrs d1) \<noteq> [] \<and> poweronServer p i w1 = (pr, w2)
      \<and> GetIPS s w2 = (Inr ips, w3) \<and> (\<forall>x\<in>set ips. Address x \<noteq> public_ip (attrs d1))"
  proof -
    let ?e = "Errorf ''Failed to find IP with ip %q to attach'' [public_ip (attrs d1)]"
    from h have at: "attachIP s (ident d1) (public_ip (attrs d1)) w2 = (Some ?e, w3, [EvGetIPS])"
      by (simp add: attachIP_def bnd_def call_def attachIP_loop_no_match)
    from h have "createStart p s d1 i w1 = (Inl ?e, w3, [EvPoweronServer i, EvGetIPS])"
      using createStart_running[of d1 p i w1 pr w2 s] at by simp
    from Create_after_prefix[OF _ this, of d w e1] h createPrefix_ident[of p s d w i d1 w1 e1]
    show ?thesis by simp
  qed
  have B: "updatePublicIP p s du v1 = (None, v2, f2)
        \<and> filter is_attach (events (resourceScalewayServerUpdate p s du v0)) = []
        \<and> (\<forall>v3 f3 du2 v4 f4.
              updateUserData s du v2 = (None, v3, f3) \<and>
              resourceScalewayServerRead p s du v3 = ((None, du2), v4, f4)
              \<longrightarrow> resourceScalewayServerUpdate p s du v0 =
                    ((None, du2), v4, MuLock # f1 @ f2 @ f3 @ f4 @ [MuUnlock]))"
    if h: "updatePatch p s du v0 = (None, v1, f1) \<and> HasChange public_ip du
      \<and> public_ip (attrs du) \<noteq> [] \<and> retry p (call EvGetIPS (GetIPS s)) v1 = (Inr ips2, v2, f2)
      \<and> (\<forall>x\<in>set ips2. Address x \<noteq> public_ip (attrs du))"
  proof -
    from h have ip: "updatePublicIP p s du v1 = (None, v2, f2)"
      by (simp add: updatePublicIP_def bnd_step GetOk_def updateAttach_loop_no_match)
    from retry_events[of p EvGetIPS "GetIPS s" v1] h
    obtain k where k: "f2 = replicate k EvGetIPS" by (auto simp add: events_def)
    from h ip k have na: "filter is_attach (events (resourceScalewayServerUpdate p s du v0)) = []"
      by (simp add: attach_actions_Update events_triple is_attach_def)
    from h ip na Update_all_steps[of p s du v0 v1 f1 v2 f2] show ?thesis by blast
  qed
  from A B show ?thesis by blast
qed

section \<open>The mutex\<close>

lemma is_lock_simps:
  "is_lock MuLock" "is_lock MuUnlock"
  "\<not> is_lock (EvGetServer a)" "\<not> is_lock (EvPostServer sd)" "\<not> is_lock (EvPatchServer a req)"
  "\<not> is_lock (EvPostVolume vd)" "\<not> is_lock EvGetIPS" "\<not> is_lock (EvAttachIP a b)"
  "\<not> is_lock (EvDetachIP a)" "\<not> is_lock EvNewIP" "\<not> is_lock (EvGetIP a)"
  "\<not> is_lock (EvDeleteIP a)" "\<not> is_lock (EvGetUserdatas a)" "\<not> is_lock (EvGetUserdata a b)"
  "\<not> is_lock (EvPatchUserdata a b c)" "\<not> is_lock (EvDeleteUserdata a b)"
  "\<not> is_lock (EvPoweronServer a)" "\<not> is_lock (EvDeleteStoppedServer srv)"
  "\<not> is_lock (EvDeleteRunningServer srv)"
  by (simp_all add: is_lock_def)

lemma locked_shape:
  "quiet is_lock m \<Longrightarrow>
   \<exists>es. events (locked m w) = MuLock # es @ [MuUnlock] \<and> filter is_lock es = []"
  by (simp add: events_locked quietD)

lemma quiet_lock_Read: "quiet is_lock (resourceScalewayServerRead p s d)"
  by (rule quiet_Read) (simp_all add: is_lock_simps)

lemma quiet_lock_IPRead: "quiet is_lock (resourceScalewayIPRead p s d)"
  by (rule quiet_IPRead) (simp_all add: is_lock_simps)

lemma lock_shape_Create:
  "\<exists>es. events (resourceScalewayServerCreate p s d w) = MuLock # es @ [MuUnlock]
        \<and> filter is_lock es = []"
  unfolding resourceScalewayServerCreate_def
  by (rule locked_shape)
     (auto intro!: quiet_intros quiet_createPrefix quiet_createStart quiet_lock_Read
        simp add: is_lock_simps split: sum.splits option.splits)

lemma lock_shape_Update:
  "\<exists>es. events (resourceScalewayServerUpdate p s d w) = MuLock # es @ [MuUnlock]
        \<and> filter is_lock es = []"
  unfolding resourceScalewayServerUpdate_def
  by (rule locked_shape)
     (auto intro!: quiet_intros quiet_updatePatch quiet_updatePublicIP quiet_updateUserData
        quiet_lock_Read simp add: is_lock_simps split: sum.splits option.splits)

lemma lock_shape_Delete:
  "\<exists>es. events (resourceScalewayServerDelete p s d w) = MuLock # es @ [MuUnlock]
        \<and> filter is_lock es = []"
  unfolding resourceScalewayServerDelete_def
  by (rule locked_shape)
     (auto intro!: quiet_intros simp add: is_lock_simps split: sum.splits option.splits)

lemma lock_shape_IPUpdate:
  "\<exists>es. events (resourceScalewayIPUpdate p s d w) = MuLock # es @ [MuUnlock]
        \<and> filter is_lock es = []"
  unfolding resourceScalewayIPUpdate_def
  by (rule locked_shape)
     (auto intro!: quiet_intros quiet_lock_IPRead simp add: is_lock_simps
        split: sum.splits option.splits)

lemma lock_shape_IPDelete:
  "\<exists>es. events (resourceScalewayIPDelete p s d w) = MuLock # es @ [MuUnlock]
        \<and> filter is_lock es = []"
  unfolding resourceScalewayIPDelete_def
  by (rule locked_shape)
     (auto intro!: quiet_intros simp add: is_lock_simps split: sum.splits option.splits)

lemma lock_shape_IPCreate:
  "\<exists>n es. events (resourceScalewayIPCreate p s d w) =
            MuLock # replicate n EvNewIP @ MuUnlock # es
          \<and> 1 \<le> n \<and> n \<le> max 1 (maxAttempts p)
          \<and> (es = [] \<or> (\<exists>d2 w2. es = events (resourceScalewayIPUpdate p s d2 w2)))"
proof -
  let ?m = "retry p (call EvNewIP (NewIP s))"
  from retry_events[of p EvNewIP "NewIP s" w] obtain n where
    n: "events (?m w) = replicate n EvNewIP" "1 \<le> n" "n \<le> max 1 (maxAttempts p)" by blast
  obtain r w1 e1 where m: "?m w = (r, w1, e1)" by (cases "?m w")
  with n(1) have e1: "e1 = replicate n EvNewIP" by (simp add: events_triple)
  show ?thesis
  proof (cases r)
    case (Inl err)
    with m e1 have "events (resourceScalewayIPCreate p s d w) =
        MuLock # replicate n EvNewIP @ MuUnlock # []"
      by (simp add: resourceScalewayIPCreate_def events_bnd events_locked events_ret
          locked_def events_triple)
    with n(2,3) show ?thesis by blast
  next
    case (Inr resp)
    with m e1 have "events (resourceScalewayIPCreate p s d w) =
        MuLock # replicate n EvNewIP @ MuUnlock #
          events (resourceScalewayIPUpdate p s (d\<lparr>ident := ID resp\<rparr>) w1)"
      by (simp add: resourceScalewayIPCreate_def events_bnd events_locked
          locked_def events_triple)
    with n(2,3) show ?thesis by blast
  qed
qed

text \<open>
  C8, as the code has it. Server Create, Update and Delete and IP Update and Delete acquire
  the mutex once, at entry, and release it once, on return: the events of one invocation
  are the acquisition, the events of the whole body with no mutex event among them, and the
  release. Only IP Create holds the mutex for just the retried \<open>NewIP\<close> call and releases it
  before it goes on, either returning the error or calling IP Update.
\<close>

theorem lock_spans_whole_invocation:
  "(\<exists>es. events (resourceScalewayServerCreate p s d w) = MuLock # es @ [MuUnlock]
         \<and> filter is_lock es = [])
   \<and> (\<exists>es. events (resourceScalewayServerUpdate p s d w) = MuLock # es @ [MuUnlock]
         \<and> filter is_lock es = [])
   \<and> (\<exists>es. events (resourceScalewayServerDelete p s d w) = MuLock # es @ [MuUnlock]
         \<and> filter is_lock es = [])
   \<and> (\<exists>es. events (resourceScalewayIPUpdate p s di w) = MuLock # es @ [MuUnlock]
         \<and> filter is_lock es = [])
   \<and> (\<exists>es. events (resourceScalewayIPDelete p s di w) = MuLock # es @ [MuUnlock]
         \<and> filter is_lock es = [])
   \<and> (\<exists>n es. events (resourceScalewayIPCreate p s di w) =
                MuLock # replicate n EvNewIP @ MuUnlock # es
         \<and> 1 \<le> n \<and> n \<le> max 1 (maxAttempts p)
         \<and> (es = [] \<or> (\<exists>d2 w2. es = events (resourceScalewayIPUpdate p s d2 w2))))"
  using lock_shape_Create[of p s d w] lock_shape_Update[of p s d w] lock_shape_Delete[of p s d w]
    lock_shape_IPUpdate[of p s di w] lock_shape_IPDelete[of p s di w]
    lock_shape_IPCreate[of p s di w]
  by blast

section \<open>Concrete instances\<close>

text \<open>The theorems above with hypotheses, applied to the example provider.\<close>

text \<open>C5 on an operation that fails twice with status 503 and then succeeds, with a budget
  of three attempts, and on an operation that fails with the terminal status 400.\<close>

theorem retry_attempt_count_witness:
  "retry counter_pkg (call EvNewIP flaky) 0 = (Inr (), 3, [EvNewIP, EvNewIP, EvNewIP])
   \<and> retry counter_pkg (call EvNewIP (\<lambda>n. (Inl (APIError 400 ''bad request''), Suc n))) (0::nat)
       = (Inl (APIError 400 ''bad request''), 1, [EvNewIP])"
proof -
  have h1: "(2::nat) < maxAttempts counter_pkg"
    by (simp add: counter_pkg_def)
  have h2: "\<forall>j<2. \<exists>e. fst (flaky (after flaky j 0)) = Inl e \<and> retryable counter_pkg e"
    by (simp add: flaky_def counter_pkg_def less_Suc_eq numeral_2_eq_2)
  have h3: "fst (flaky (after flaky 2 0)) = Inr ()"
    by (simp add: flaky_def numeral_2_eq_2)
  have h4: "fst ((\<lambda>n. (Inl (APIError 400 ''bad request'') :: unit result, Suc n)) (0::nat))
              = Inl (APIError 400 ''bad request'')
     \<and> \<not> retryable counter_pkg (APIError 400 ''bad request'')"
    by (simp add: counter_pkg_def)
  from retry_attempt_count[where N=2 and p=counter_pkg and g=flaky and w=0 and a="()"
      and ev=EvNewIP] h1 h2 h3
  have a: "retry counter_pkg (call EvNewIP flaky) 0 = (Inr (), 3, [EvNewIP, EvNewIP, EvNewIP])"
    by (simp add: flaky_def numeral_2_eq_2 numeral_3_eq_3)
  from retry_attempt_count[where N=0 and p=counter_pkg
      and g="\<lambda>n. (Inl (APIError 400 ''bad request''), Suc n)" and w=0 and ev=EvNewIP
      and e="APIError 400 ''bad request''"] h4
  have b: "retry counter_pkg (call EvNewIP (\<lambda>n. (Inl (APIError 400 ''bad request''), Suc n))) (0::nat)
       = (Inl (APIError 400 ''bad request''), 1, [EvNewIP])"
    by simp
  from a b show ?thesis by simp
qed

text \<open>C6, as proved, on the value 100 and on a single volume of size zero.\<close>

theorem size_validator_zero_to_150_witness:
  "0 \<le> sint (100 :: 64 word)
   \<and> accepts (size_in_gb_ValidateFunc 100 ''size_in_gb'')
   \<and> size_in_gb \<lparr>size_in_gb = 0, volume_type = ''l_ssd'', volume_id = ''''\<rparr> = 0
   \<and> createVolumes example_pkg example_api ''web'' 0
        [\<lparr>size_in_gb = 0, volume_type = ''l_ssd'', volume_id = ''''\<rparr>] [] example_world
       = (Inr ([\<lparr>size_in_gb = 0, volume_type = ''l_ssd'', volume_id = ''''\<rparr>], []),
          example_world, [])"
proof -
  have h1: "0 \<le> sint (100 :: 64 word)" by simp
  have h3: "sint (100 :: 64 word) \<le> 150" by simp
  have h2: "size_in_gb \<lparr>size_in_gb = 0, volume_type = ''l_ssd'', volume_id = ''''\<rparr> = 0" by simp
  from size_validator_zero_to_150[where v="100 :: 64 word" and k="''size_in_gb''"
      and vol="\<lparr>size_in_gb = 0, volume_type = ''l_ssd'', volume_id = ''''\<rparr>"
      and p=example_pkg and scaleway=example_api and nm="''web''" and i=0 and rest="[]"
      and vols="[]" and w=example_world] h1 h2 h3
  show ?thesis by blast
qed

text \<open>C1 on a server that is gone, on an IP that is gone, and on a fetch that fails with an
  error that is not a 404.\<close>

theorem read_not_found_clears_identifier_witness:
  "resourceScalewayServerRead example_pkg example_api example_data
      (example_world\<lparr>ex_server := Inl (APIError 404 ''gone'')\<rparr>)
     = ((None, example_data\<lparr>ident := ''''\<rparr>),
        example_world\<lparr>ex_server := Inl (APIError 404 ''gone'')\<rparr>, [EvGetServer ''srv1''])
   \<and> resourceScalewayIPRead example_pkg example_api example_ip_data example_world
     = ((None, example_ip_data\<lparr>ident := ''''\<rparr>), example_world, [EvGetIP ''ip7''])
   \<and> resourceScalewayServerRead example_pkg example_api example_data
      (example_world\<lparr>ex_server := Inl (OtherError ''connection reset'')\<rparr>)
     = ((Some (OtherError ''connection reset''), example_data),
        example_world\<lparr>ex_server := Inl (OtherError ''connection reset'')\<rparr>, [EvGetServer ''srv1''])
   \<and> ident example_data = ''srv1''"
proof -
  let ?w = "example_world\<lparr>ex_server := Inl (APIError 404 ''gone'')\<rparr>"
  let ?u = "example_world\<lparr>ex_server := Inl (OtherError ''connection reset'')\<rparr>"
  have h1: "retry example_pkg (call (EvGetServer (ident example_data))
              (GetServer example_api (ident example_data))) ?w
            = (Inl (APIError 404 ''gone''), ?w, [EvGetServer ''srv1''])"
    by (simp add: example_defs)
  have h2: "retry example_pkg (call (EvGetIP (ident example_ip_data))
              (GetIP example_api (ident example_ip_data))) example_world
            = (Inl (APIError 404 ''not found''), example_world, [EvGetIP ''ip7''])"
    by (simp add: example_defs)
  have h3: "retry example_pkg (call (EvGetServer (ident example_data))
              (GetServer example_api (ident example_data))) ?u
            = (Inl (OtherError ''connection reset''), ?u, [EvGetServer ''srv1''])"
    by (simp add: example_defs)
  have a: "resourceScalewayServerRead example_pkg example_api example_data ?w
     = ((None, example_data\<lparr>ident := ''''\<rparr>), ?w, [EvGetServer ''srv1''])"
    and b: "resourceScalewayIPRead example_pkg example_api example_ip_data example_world
     = ((None, example_ip_data\<lparr>ident := ''''\<rparr>), example_world, [EvGetIP ''ip7''])"
    using read_not_found_clears_identifier[where p=example_pkg and scaleway=example_api
        and d=example_data and w="?w" and err="APIError 404 ''gone''" and ?w1.0="?w"
        and ?e1.0="[EvGetServer ''srv1'']" and di=example_ip_data and v=example_world
        and ?err2.0="APIError 404 ''not found''" and ?v1.0=example_world and ?e2.0="[EvGetIP ''ip7'']"]
      h1 h2 by simp_all
  have c: "resourceScalewayServerRead example_pkg example_api example_data ?u
     = ((Some (OtherError ''connection reset''), example_data), ?u, [EvGetServer ''srv1''])"
    using read_not_found_clears_identifier[where p=example_pkg and scaleway=example_api
        and d=example_data and w="?u" and err="OtherError ''connection reset''" and ?w1.0="?u"
        and ?e1.0="[EvGetServer ''srv1'']" and di=example_ip_data and v=example_world
        and ?err2.0="APIError 404 ''not found''" and ?v1.0=example_world and ?e2.0="[EvGetIP ''ip7'']"]
      h3 by simp
  from a b c show ?thesis by (simp add: example_data_def)
qed

text \<open>Reading the user data of the example provider.\<close>

lemma ex_readUserDatas:
  "readUserDatas example_api i example_world = (([(''role'', ''web'')], None), example_world, [EvGetUserdatas i, EvGetUserdata i ''role''])"
  by (simp add: readUserDatas_def bnd_def ret_def example_defs)

lemma ex_readUserDatas_empty:
  "readUserDatas example_api i (example_world\<lparr>ex_userdata := []\<rparr>) = (([], None), example_world\<lparr>ex_userdata := []\<rparr>, [EvGetUserdatas i])"
  by (simp add: readUserDatas_def bnd_def ret_def example_defs)

text \<open>C10 on a provider without user data, where the stored map stays, and on the example
  provider, where the fetched map replaces it.\<close>

theorem read_skips_empty_user_data_witness:
  "user_data (attrs (snd (fst (resourceScalewayServerRead example_pkg example_api
      (example_data\<lparr>attrs := example_attrs\<lparr>user_data := [(''old'', ''x'')]\<rparr>\<rparr>)
      (example_world\<lparr>ex_userdata := []\<rparr>))))) = [(''old'', ''x'')]
   \<and> user_data (attrs (snd (fst (resourceScalewayServerRead example_pkg example_api
      (example_data\<lparr>attrs := example_attrs\<lparr>user_data := [(''old'', ''x'')]\<rparr>\<rparr>)
      example_world)))) = [(''role'', ''web'')]"
proof -
  let ?d = "example_data\<lparr>attrs := example_attrs\<lparr>user_data := [(''old'', ''x'')]\<rparr>\<rparr>"
  let ?w = "example_world\<lparr>ex_userdata := []\<rparr>"
  have i: "ident ?d = ''srv1''" by (simp add: example_defs)
  have h1: "retry example_pkg (call (EvGetServer (ident ?d)) (GetServer example_api (ident ?d))) ?w
            = (Inr example_server, ?w, [EvGetServer ''srv1''])"
    by (simp add: example_defs)
  have h2: "readUserDatas example_api (ident ?d) ?w = (([], None), ?w, [EvGetUserdatas ''srv1''])"
    unfolding i by (rule ex_readUserDatas_empty)
  have h3: "retry example_pkg (call (EvGetServer (ident ?d)) (GetServer example_api (ident ?d))) example_world
            = (Inr example_server, example_world, [EvGetServer ''srv1''])"
    by (simp add: example_defs)
  have h4: "readUserDatas example_api (ident ?d) example_world =
     (([(''role'', ''web'')], None), example_world, [EvGetUserdatas ''srv1'', EvGetUserdata ''srv1'' ''role''])"
    unfolding i by (rule ex_readUserDatas)
  from read_skips_empty_user_data[OF h1 h2] read_skips_empty_user_data[OF h3 h4]
  show ?thesis by (simp add: example_data_def)
qed

text \<open>C3 on a stopped example server: Delete succeeds and the identifier is still \<open>srv1\<close>.\<close>

theorem delete_stopped_keeps_identifier_witness:
  "resourceScalewayServerDelete example_pkg example_api example_data
      (example_world\<lparr>ex_server := Inr (example_server\<lparr>State := ''stopped''\<rparr>)\<rparr>)
     = ((None, example_data),
        example_world\<lparr>ex_server := Inr (example_server\<lparr>State := ''stopped''\<rparr>)\<rparr>,
        [MuLock, EvGetServer ''srv1'', EvDeleteStoppedServer (example_server\<lparr>State := ''stopped''\<rparr>),
         MuUnlock])
   \<and> ident example_data = ''srv1''"
proof -
  let ?s = "example_server\<lparr>State := ''stopped''\<rparr>"
  let ?w = "example_world\<lparr>ex_server := Inr ?s\<rparr>"
  have h1: "retry example_pkg (call (EvGetServer (ident example_data))
              (GetServer example_api (ident example_data))) ?w
            = (Inr ?s, ?w, [EvGetServer ''srv1''])"
    by (simp add: example_defs)
  have h2: "State ?s = ''stopped''" by simp
  have h3: "deleteStoppedServer example_pkg ?s ?w = (Inr (), ?w)"
    by (simp add: example_pkg_def)
  from delete_stopped_keeps_identifier[OF h1 h2 h3] show ?thesis
    by (simp add: example_data_def)
qed

text \<open>The definitions that evaluate an Update call.\<close>

lemmas update_defs =
  resourceScalewayServerUpdate_def updatePatch_def updatePublicIP_def updateUserData_def
  resourceScalewayServerRead_def readUserDatas_def HasChange_def Get_def GetOk_def Let_def
  err_of_def bnd_def ret_def locked_def

text \<open>C2, as proved, on a newly declared address whose pool entry is attached to this server.\<close>

theorem update_ip_single_action_witness:
  "HasChange public_ip example_ip_change \<and> public_ip (attrs example_ip_change) = ''1.2.3.4''
   \<and> ex_pool example_world = [\<lparr>ID = ''ip1'', Address = ''1.2.3.4'', Server = Some ''srv1''\<rparr>]
   \<and> (\<exists>n\<ge>1. filter is_ip_action
          (events (resourceScalewayServerUpdate example_pkg example_api example_ip_change
             example_world)) = replicate n (EvAttachIP ''ip1'' ''srv1''))"
proof -
  let ?req = "\<lparr>pd_Name = None, pd_Tags = None, pd_EnableIPV6 = None,
               pd_DynamicIPRequired = None, pd_SecurityGroup = None\<rparr>"
  let ?x = "\<lparr>ID = ''ip1'', Address = ''1.2.3.4'', Server = Some ''srv1''\<rparr>"
  have h: "updatePatch example_pkg example_api example_ip_change example_world
             = (None, example_world, [EvPatchServer ''srv1'' ?req])
         \<and> HasChange public_ip example_ip_change \<and> public_ip (attrs example_ip_change) \<noteq> []
         \<and> retry example_pkg (call EvGetIPS (GetIPS example_api)) example_world
             = (Inr [?x], example_world, [EvGetIPS])
         \<and> find (\<lambda>x. Address x = public_ip (attrs example_ip_change)) [?x] = Some ?x"
    by (simp add: update_defs example_defs)
  from update_ip_single_action[where p=example_pkg and s=example_api and d=example_ip_change
      and w=example_world and ?w1.0=example_world and ?e1.0="[EvPatchServer ''srv1'' ?req]"
      and ips="[?x]" and ?w2.0=example_world and ?e2.0="[EvGetIPS]" and x="?x"] h
  show ?thesis by (simp add: update_defs example_defs)
qed

text \<open>C2 as stated fails: the declared address is attached to this same server in the
  pool already, and Update still issues the \<open>AttachIP\<close>.\<close>

theorem update_reattaches_attached_ip:
  "ex_pool example_world = [\<lparr>ID = ''ip1'', Address = ''1.2.3.4'', Server = Some ''srv1''\<rparr>]
   \<and> ident example_ip_change = ''srv1''
   \<and> Get public_ip example_ip_change = ''1.2.3.4''
   \<and> HasChange public_ip example_ip_change
   \<and> filter is_ip_action
        (events (resourceScalewayServerUpdate example_pkg example_api example_ip_change
           example_world)) = [EvAttachIP ''ip1'' ''srv1'']"
  by (simp add: update_defs events_def is_ip_action_def example_defs)

text \<open>C4 on desired user data equal to the provider's, and the two loops on maps that differ.\<close>

theorem user_data_update_idempotent_witness:
  "HasChange user_data example_ud_change
   \<and> updateUserData example_api example_ud_change example_world
       = (None, example_world, [EvGetUserdatas ''srv1'', EvGetUserdata ''srv1'' ''role''])
   \<and> filter is_ud_mutation
        (events (resourceScalewayServerUpdate example_pkg example_api example_ud_change
           example_world)) = []
   \<and> events (deleteStale example_api ''srv1'' [(''role'', ''web'')]
        [(''role'', ''web''), (''stale'', ''x'')] example_world)
       = [EvDeleteUserdata ''srv1'' ''stale'']
   \<and> events (patchChanged example_api ''srv1'' [(''role'', ''old''), (''same'', ''z'')]
        [(''role'', ''web''), (''same'', ''z''), (''new'', ''y'')] example_world)
       = [EvPatchUserdata ''srv1'' ''role'' ''web'', EvPatchUserdata ''srv1'' ''new'' ''y'']"
proof -
  let ?req = "\<lparr>pd_Name = None, pd_Tags = None, pd_EnableIPV6 = None,
               pd_DynamicIPRequired = None, pd_SecurityGroup = None\<rparr>"
  have i: "ident example_ud_change = ''srv1''" by (simp add: example_defs)
  have h1: "readUserDatas example_api (ident example_ud_change) example_world =
     (([(''role'', ''web'')], None), example_world,
      [EvGetUserdatas ''srv1'', EvGetUserdata ''srv1'' ''role''])"
    unfolding i by (rule ex_readUserDatas)
  have h2: "distinct (map fst (user_data (attrs example_ud_change)))"
    by (simp add: example_defs)
  have h3: "map_of [(''role'', ''web'')] = map_of (user_data (attrs example_ud_change))"
    by (simp add: example_defs)
  have h4: "updatePatch example_pkg example_api example_ud_change example_world
              = (None, example_world, [EvPatchServer ''srv1'' ?req])
          \<and> updatePublicIP example_pkg example_api example_ud_change example_world
              = (None, example_world, [])"
    by (simp add: update_defs example_defs)
  have h5: "\<forall>k u. fst (DeleteUserdata example_api ''srv1'' k u) = Inr ()"
    by (simp add: example_api_def)
  have h6: "\<forall>k v u. fst (PatchUserdata example_api ''srv1'' k v u) = Inr ()"
    by (simp add: example_api_def)
  have c: "HasChange user_data example_ud_change"
    by (simp add: HasChange_def example_defs)
  from user_data_update_idempotent[OF h1 h2 h3, where p=example_pkg and ?w0.0=example_world
      and ?r1.0=None and wa=example_world and ea="[EvPatchServer ''srv1'' ?req]"
      and ?r2.0=None and eb="[]" and i="''srv1''" and m'="[(''role'', ''web'')]"
      and am'="[(''role'', ''web''), (''stale'', ''x'')]" and ?u0.0=example_world]
    h4 h5 c
  have a: "updateUserData example_api example_ud_change example_world
       = (None, example_world, [EvGetUserdatas ''srv1'', EvGetUserdata ''srv1'' ''role''])
   \<and> filter is_ud_mutation
        (events (resourceScalewayServerUpdate example_pkg example_api example_ud_change
           example_world)) = []
   \<and> events (deleteStale example_api ''srv1'' [(''role'', ''web'')]
        [(''role'', ''web''), (''stale'', ''x'')] example_world)
       = [EvDeleteUserdata ''srv1'' ''stale'']"
    by simp
  from user_data_update_idempotent[OF h1 h2 h3, where i="''srv1''"
      and m'="[(''role'', ''web''), (''same'', ''z''), (''new'', ''y'')]"
      and am'="[(''role'', ''old''), (''same'', ''z'')]" and ?u0.0=example_world] h6
  have b: "events (patchChanged example_api ''srv1'' [(''role'', ''old''), (''same'', ''z'')]
        [(''role'', ''web''), (''same'', ''z''), (''new'', ''y'')] example_world)
       = [EvPatchUserdata ''srv1'' ''role'' ''web'', EvPatchUserdata ''srv1'' ''new'' ''y'']"
    by simp
  from a b c show ?thesis by simp
qed

text \<open>The definitions that evaluate a Create call, and the first part of Create on the
  example.\<close>

lemmas create_defs =
  createPrefix_def createStart_def attachIP_def resourceScalewayServerCreate_def
  resourceScalewayServerRead_def readUserDatas_def HasChange_def Get_def GetOk_def Let_def
  err_of_def bnd_def ret_def locked_def

lemma ex_createPrefix:
  "createPrefix failing_poweron_pkg example_api example_new w =
     ((Inr ''srv1'', example_new\<lparr>ident := ''srv1''\<rparr>), w,
      [EvPostServer \<lparr>sd_Name = ''web'', sd_Image = Some ''img1'', sd_Organization = ''org'',
         sd_EnableIPV6 = False, sd_SecurityGroup = [], sd_DynamicIPRequired = Some False,
         sd_CommercialType = ''C1'', sd_Bootscript = None, sd_Volumes = None, sd_Tags = []\<rparr>])"
  by (simp add: create_defs example_defs)

lemma ex_createPrefix_no_ip:
  "createPrefix failing_poweron_pkg example_api (example_data\<lparr>ident := ''''\<rparr>) w =
     ((Inr ''srv1'', example_data), w,
      [EvPostServer \<lparr>sd_Name = ''web'', sd_Image = Some ''img1'', sd_Organization = ''org'',
         sd_EnableIPV6 = False, sd_SecurityGroup = [], sd_DynamicIPRequired = Some False,
         sd_CommercialType = ''C1'', sd_Bootscript = None, sd_Volumes = None, sd_Tags = []\<rparr>])"
  by (simp add: create_defs example_defs)

text \<open>C7 with a failing power-on: the attach succeeds, the attach fails, no address is
  declared.\<close>

theorem create_poweron_error_shadowing_witness:
  "Get state example_new \<noteq> ''stopped''
   \<and> fst (poweronServer failing_poweron_pkg ''srv1'' example_world) = Inl (APIError 400 ''cannot boot'')
   \<and> fst (resourceScalewayServerCreate failing_poweron_pkg example_api example_new example_world)
       = (Some (APIError 400 ''cannot boot''), example_new\<lparr>ident := ''srv1''\<rparr>)
   \<and> fst (resourceScalewayServerCreate failing_poweron_pkg example_api example_new
            (example_world\<lparr>ex_pool := []\<rparr>))
       = (Some (Errorf ''Failed to find IP with ip %q to attach'' [''1.2.3.4'']),
          example_new\<lparr>ident := ''srv1''\<rparr>)
   \<and> fst (resourceScalewayServerCreate failing_poweron_pkg example_api
            (example_data\<lparr>ident := ''''\<rparr>) example_world)
       = (Some (APIError 400 ''cannot boot''), example_data)"
proof -
  let ?d1 = "example_new\<lparr>ident := ''srv1''\<rparr>"
  let ?w = "example_world\<lparr>ex_pool := []\<rparr>"
  have s1: "Get state ?d1 \<noteq> ''stopped''" and s0: "Get state example_new \<noteq> ''stopped''"
    and s2: "Get state example_data \<noteq> ''stopped''"
    by (simp_all add: Get_def example_defs)
  have p: "\<And>w. poweronServer failing_poweron_pkg ''srv1'' w = (Inl (APIError 400 ''cannot boot''), w)"
    by (simp add: failing_poweron_pkg_def)
  have ip: "public_ip (attrs ?d1) = ''1.2.3.4''" and nip: "public_ip (attrs example_data) = []"
    by (simp_all add: example_defs)
  have a1: "attachIP example_api (ident ?d1) (public_ip (attrs ?d1)) example_world
              = (None, example_world, [EvGetIPS, EvAttachIP ''ip1'' ''srv1''])"
    by (simp add: create_defs example_defs)
  have a2: "attachIP example_api (ident ?d1) (public_ip (attrs ?d1)) ?w
              = (Some (Errorf ''Failed to find IP with ip %q to attach'' [''1.2.3.4'']), ?w, [EvGetIPS])"
    by (simp add: create_defs example_defs)
  from create_poweron_error_shadowing[OF ex_createPrefix s1 p, of example_world] ip a1
  have c1: "fst (resourceScalewayServerCreate failing_poweron_pkg example_api example_new example_world)
       = (Some (APIError 400 ''cannot boot''), ?d1)"
    by simp
  from create_poweron_error_shadowing[OF ex_createPrefix s1 p, of ?w] ip a2
  have c2: "fst (resourceScalewayServerCreate failing_poweron_pkg example_api example_new ?w)
       = (Some (Errorf ''Failed to find IP with ip %q to attach'' [''1.2.3.4'']), ?d1)"
    by simp
  from create_poweron_error_shadowing[OF ex_createPrefix_no_ip s2 p, of example_world] nip
  have c3: "fst (resourceScalewayServerCreate failing_poweron_pkg example_api
            (example_data\<lparr>ident := ''''\<rparr>) example_world)
       = (Some (APIError 400 ''cannot boot''), example_data)"
    by simp
  from s0 p c1 c2 c3 show ?thesis by simp
qed

text \<open>The first part of Create and Read on the example, for C9.\<close>

lemma ex_createPrefix_ok:
  "createPrefix example_pkg example_api example_new w =
     ((Inr ''srv1'', example_new\<lparr>ident := ''srv1''\<rparr>), w,
      [EvPostServer \<lparr>sd_Name = ''web'', sd_Image = Some ''img1'', sd_Organization = ''org'',
         sd_EnableIPV6 = False, sd_SecurityGroup = [], sd_DynamicIPRequired = Some False,
         sd_CommercialType = ''C1'', sd_Bootscript = None, sd_Volumes = None, sd_Tags = []\<rparr>])"
  by (simp add: create_defs example_defs)

lemma ex_Read_ok:
  "resourceScalewayServerRead example_pkg example_api d (example_world\<lparr>ex_pool := []\<rparr>) =
     ((None, snd (fst (resourceScalewayServerRead example_pkg example_api d
                         (example_world\<lparr>ex_pool := []\<rparr>)))),
      example_world\<lparr>ex_pool := []\<rparr>,
      [EvGetServer (ident d), EvGetUserdatas (ident d), EvGetUserdata (ident d) ''role''])"
  by (simp add: update_defs example_defs)

text \<open>C9, as proved, on an empty pool: Create fails with the identifier set, Update succeeds
  without an attach.\<close>

theorem missing_pool_entry_witness:
  "public_ip (attrs example_new) = ''1.2.3.4'' \<and> public_ip (attrs example_ip_change) = ''1.2.3.4''
   \<and> ex_pool (example_world\<lparr>ex_pool := []\<rparr>) = []
   \<and> fst (resourceScalewayServerCreate example_pkg example_api example_new
            (example_world\<lparr>ex_pool := []\<rparr>))
       = (Some (Errorf ''Failed to find IP with ip %q to attach'' [''1.2.3.4'']),
          example_new\<lparr>ident := ''srv1''\<rparr>)
   \<and> fst (fst (resourceScalewayServerUpdate example_pkg example_api example_ip_change
            (example_world\<lparr>ex_pool := []\<rparr>))) = None
   \<and> filter is_attach (events (resourceScalewayServerUpdate example_pkg example_api
            example_ip_change (example_world\<lparr>ex_pool := []\<rparr>))) = []"
proof -
  let ?w = "example_world\<lparr>ex_pool := []\<rparr>"
  let ?d1 = "example_new\<lparr>ident := ''srv1''\<rparr>"
  let ?req = "\<lparr>pd_Name = None, pd_Tags = None, pd_EnableIPV6 = None,
               pd_DynamicIPRequired = None, pd_SecurityGroup = None\<rparr>"
  let ?du2 = "snd (fst (resourceScalewayServerRead example_pkg example_api example_ip_change ?w))"
  have h1: "createPrefix example_pkg example_api example_new ?w = ((Inr ''srv1'', ?d1), ?w,
      [EvPostServer \<lparr>sd_Name = ''web'', sd_Image = Some ''img1'', sd_Organization = ''org'',
         sd_EnableIPV6 = False, sd_SecurityGroup = [], sd_DynamicIPRequired = Some False,
         sd_CommercialType = ''C1'', sd_Bootscript = None, sd_Volumes = None, sd_Tags = []\<rparr>])
     \<and> Get state ?d1 \<noteq> ''stopped'' \<and> public_ip (attrs ?d1) \<noteq> []
     \<and> poweronServer example_pkg ''srv1'' ?w = (Inr (), ?w)
     \<and> GetIPS example_api ?w = (Inr [], ?w) \<and> (\<forall>x\<in>set []. Address x \<noteq> public_ip (attrs ?d1))"
    by (simp add: ex_createPrefix_ok) (simp add: Get_def example_pkg_def example_defs)
  have h2: "updatePatch example_pkg example_api example_ip_change ?w
              = (None, ?w, [EvPatchServer ''srv1'' ?req])
     \<and> HasChange public_ip example_ip_change \<and> public_ip (attrs example_ip_change) \<noteq> []
     \<and> retry example_pkg (call EvGetIPS (GetIPS example_api)) ?w = (Inr [], ?w, [EvGetIPS])
     \<and> (\<forall>x\<in>set []. Address x \<noteq> public_ip (attrs example_ip_change))"
    by (simp add: update_defs example_defs)
  have h3: "updateUserData example_api example_ip_change ?w = (None, ?w, [])
     \<and> resourceScalewayServerRead example_pkg example_api example_ip_change ?w =
         ((None, ?du2), ?w,
          [EvGetServer (ident example_ip_change), EvGetUserdatas (ident example_ip_change),
           EvGetUserdata (ident example_ip_change) ''role''])"
    by (simp add: ex_Read_ok[symmetric]) (simp add: updateUserData_def HasChange_def ret_def example_defs)
  note T = missing_pool_entry_create_fails_update_skips[where p=example_pkg and s=example_api
      and d=example_new and w="?w" and i="''srv1''" and ?d1.0="?d1" and ?w1.0="?w"
      and pr="Inr ()" and ?w2.0="?w" and ips="[]" and ?w3.0="?w"
      and du=example_ip_change and ?v0.0="?w" and ?v1.0="?w"
      and ?f1.0="[EvPatchServer ''srv1'' ?req]" and ?ips2.0="[]" and ?v2.0="?w"
      and ?f2.0="[EvGetIPS]"]
  from T h1 have a: "fst (resourceScalewayServerCreate example_pkg example_api example_new ?w)
       = (Some (Errorf ''Failed to find IP with ip %q to attach'' [public_ip (attrs ?d1)]), ?d1)"
    by simp
  from T h2 have b: "filter is_attach (events (resourceScalewayServerUpdate example_pkg example_api
            example_ip_change ?w)) = []"
    and c: "\<forall>v3 f3 du2 v4 f4.
              updateUserData example_api example_ip_change ?w = (None, v3, f3) \<and>
              resourceScalewayServerRead example_pkg example_api example_ip_change v3
                = ((None, du2), v4, f4)
              \<longrightarrow> resourceScalewayServerUpdate example_pkg example_api example_ip_change ?w =
                    ((None, du2), v4,
                     MuLock # [EvPatchServer ''srv1'' ?req] @ [EvGetIPS] @ f3 @ f4 @ [MuUnlock])"
    by blast+
  from c h3 have d: "fst (fst (resourceScalewayServerUpdate example_pkg example_api
      example_ip_change ?w)) = None"
    by (metis fst_conv)
  have e: "public_ip (attrs example_new) = ''1.2.3.4'' \<and> public_ip (attrs example_ip_change) = ''1.2.3.4''
     \<and> public_ip (attrs ?d1) = ''1.2.3.4''"
    by (simp add: example_defs)
  from a b d e show ?thesis by simp
qed

text \<open>C9 as stated fails: with the desired state \<open>stopped\<close>, Create does not attempt the attach
  and returns no error, although the declared address is not in the pool.\<close>

theorem create_stopped_skips_attach:
  "Get state example_new_stopped = ''stopped''
   \<and> Get public_ip example_new_stopped = ''1.2.3.4''
   \<and> ex_pool (example_world\<lparr>ex_pool := []\<rparr>) = []
   \<and> fst (fst (resourceScalewayServerCreate example_pkg example_api example_new_stopped
        (example_world\<lparr>ex_pool := []\<rparr>))) = None
   \<and> events (resourceScalewayServerCreate example_pkg example_api example_new_stopped
        (example_world\<lparr>ex_pool := []\<rparr>)) =
       [MuLock,
        EvPostServer \<lparr>sd_Name = ''web'', sd_Image = Some ''img1'', sd_Organization = ''org'',
          sd_EnableIPV6 = False, sd_SecurityGroup = [], sd_DynamicIPRequired = Some False,
          sd_CommercialType = ''C1'', sd_Bootscript = None, sd_Volumes = None, sd_Tags = []\<rparr>,
        EvGetServer ''srv1'', EvGetUserdatas ''srv1'', EvGetUserdata ''srv1'' ''role'', MuUnlock]"
  by (simp add: create_defs events_def example_defs)

text \<open>C8 as stated fails: in one Update call the mutex is held across the \<open>PatchServer\<close> and
  the \<open>AttachIP\<close>, two different mutating calls, and the calls that follow.\<close>

theorem update_holds_lock_across_calls:
  "events (resourceScalewayServerUpdate example_pkg example_api example_ip_change example_world) =
     [MuLock,
      EvPatchServer ''srv1'' \<lparr>pd_Name = None, pd_Tags = None, pd_EnableIPV6 = None,
        pd_DynamicIPRequired = None, pd_SecurityGroup = None\<rparr>,
      EvGetIPS, EvAttachIP ''ip1'' ''srv1'', EvGetServer ''srv1'', EvGetUserdatas ''srv1'',
      EvGetUserdata ''srv1'' ''role'', MuUnlock]
   \<and> \<not> per_call_locking
        (events (resourceScalewayServerUpdate example_pkg example_api example_ip_change
           example_world))"
proof -
  have e: "events (resourceScalewayServerUpdate example_pkg example_api example_ip_change
      example_world) =
     [MuLock,
      EvPatchServer ''srv1'' \<lparr>pd_Name = None, pd_Tags = None, pd_EnableIPV6 = None,
        pd_DynamicIPRequired = None, pd_SecurityGroup = None\<rparr>,
      EvGetIPS, EvAttachIP ''ip1'' ''srv1'', EvGetServer ''srv1'', EvGetUserdatas ''srv1'',
      EvGetUserdata ''srv1'' ''role'', MuUnlock]"
    by (simp add: update_defs events_def example_defs)
  show ?thesis
    unfolding e by (simp add: per_call_locking_def is_mutation_def)
qed

text \<open>IP Create on the example does keep to one mutating call per acquisition.\<close>

lemma per_call_locking_IPCreate_example:
  "per_call_locking (events (resourceScalewayIPCreate example_pkg example_api example_ip_data example_world))"
  by (simp add: resourceScalewayIPCreate_def resourceScalewayIPUpdate_def resourceScalewayIPRead_def
      HasChange_def Get_def bnd_def ret_def locked_def events_def example_defs
      per_call_locking_def is_mutation_def)

end
